theory Spec2Isabelle
  imports Complex_Main
begin

section \<open>Python values used by the service\<close>

text \<open>
  Python strings are modelled as \<open>string\<close>; a non-ASCII literal of the source is
  written as the bytes of its UTF-8 encoding.  A Python \<open>float\<close> is a finite number,
  an infinity or NaN; only comparisons against the constants 0 and 1 are computed on
  floats here, and those are exact.
\<close>

datatype pyfloat = Finite real | PosInf | NegInf | NaN

text \<open>\<open>x <= c\<close> and \<open>x > c\<close> on floats, for a finite constant \<open>c\<close>: every comparison
  with NaN is false.\<close>

fun float_le :: "pyfloat \<Rightarrow> real \<Rightarrow> bool" where
  "float_le (Finite x) c = (x \<le> c)"
| "float_le PosInf c = False"
| "float_le NegInf c = True"
| "float_le NaN c = False"

fun float_gt :: "pyfloat \<Rightarrow> real \<Rightarrow> bool" where
  "float_gt (Finite x) c = (x > c)"
| "float_gt PosInf c = True"
| "float_gt NegInf c = False"
| "float_gt NaN c = False"

text \<open>Dynamically typed values (the JSON body of \<open>/v1/completions\<close>, keyword
  arguments handed to the engine's classes).\<close>

datatype pyval =
    PNone
  | PBool bool
  | PInt int
  | PFloat pyfloat
  | PStr string
  | PList "pyval list"
  | PDict "(string \<times> pyval) list"

text \<open>\<open>dict.get(key, default)\<close>: the value of the first binding of the key.\<close>

definition dict_get :: "(string \<times> pyval) list \<Rightarrow> string \<Rightarrow> pyval \<Rightarrow> pyval" where
  "dict_get d k dflt = (case map_of d k of None \<Rightarrow> dflt | Some v \<Rightarrow> v)"

definition newline :: string where
  "newline = [CHR 0x0A]"


section \<open>Exceptions\<close>

text \<open>The exceptions the modelled code raises or lets through.  \<open>HTTPException\<close>
  carries \<open>status_code\<close> and \<open>detail\<close>; the others carry their message.
  \<open>CancelledError\<close> derives from \<open>BaseException\<close> only, so \<open>except Exception\<close>
  does not catch it.\<close>

datatype exn =
    HTTPException nat string
  | ValueError string
  | OSError string
  | IndexError string
  | RuntimeError string
  | AttributeError string
  | CancelledError

fun is_Exception :: "exn \<Rightarrow> bool" where
  "is_Exception CancelledError = False"
| "is_Exception e = True"

section \<open>Configuration (config/settings.py)\<close>

text \<open>The fields of \<open>Settings\<close> that the modelled functions read, with the types the
  class declares (\<open>Optional[str]\<close> as \<open>string option\<close>).  The remaining fields are
  plain data that no modelled function reads.\<close>

record Settings =
  app_name :: string
  log_level :: string
  host :: string
  port :: int
  node_id :: string
  node_type :: string
  node_role :: string
  start_time :: pyfloat
  model_name :: string
  model_path :: string
  max_model_len :: int
  tensor_parallel_size :: int
  pipeline_parallel_size :: int
  gpu_memory_utilization :: pyfloat
  cluster_enabled :: bool
  master_node :: "string option"
  heartbeat_interval :: int
  model_cache_dir :: string
  log_dir :: string
  rate_limit_enabled :: bool
  rate_limit_requests :: int
  rate_limit_window :: int
  max_concurrent_requests :: int
  load_balance_strategy :: string
  circuit_breaker_enabled :: bool
  circuit_breaker_threshold :: int

text \<open>The declared defaults.  \<open>node_id\<close> and \<open>start_time\<close> come from default
  factories (\<open>uuid.uuid4\<close>, \<open>time.time\<close>) and are parameters here.\<close>

definition default_settings :: "string \<Rightarrow> pyfloat \<Rightarrow> Settings" where
  "default_settings uuid4 now =
     \<lparr> app_name = ''deepseek-api'', log_level = ''INFO'', host = ''0.0.0.0'', port = 8000,
       node_id = uuid4, node_type = ''worker'', node_role = ''inference'', start_time = now,
       model_name = ''deepseek-coder'',
       model_path = ''/data/models/deepseek-coder-6.7b-instruct'',
       max_model_len = 4096, tensor_parallel_size = 1, pipeline_parallel_size = 1,
       gpu_memory_utilization = Finite (85 / 100),
       cluster_enabled = True, master_node = None, heartbeat_interval = 30,
       model_cache_dir = ''/data/cache'', log_dir = ''/data/logs'',
       rate_limit_enabled = True, rate_limit_requests = 100, rate_limit_window = 60,
       max_concurrent_requests = 100, load_balance_strategy = ''round_robin'',
       circuit_breaker_enabled = True, circuit_breaker_threshold = 5 \<rparr>"

text \<open>\<open>os.path.dirname\<close> on POSIX: the part up to the last slash, with trailing
  slashes removed unless it consists of slashes only.\<close>

definition rstrip_slash :: "string \<Rightarrow> string" where
  "rstrip_slash s = rev (dropWhile (\<lambda>c. c = CHR ''/'') (rev s))"

definition dirname :: "string \<Rightarrow> string" where
  "dirname p =
     (let head = rev (dropWhile (\<lambda>c. c \<noteq> CHR ''/'') (rev p))
      in if head \<noteq> [] \<and> filter (\<lambda>c. c \<noteq> CHR ''/'') head \<noteq> [] then rstrip_slash head
         else head)"

text \<open>\<open>_setup_directories\<close>: three calls of \<open>os.makedirs(path, exist_ok=True)\<close>.  The
  file system is outside the program: \<open>makedirs\<close> says, for a path, whether the call
  raises.\<close>

definition setup_directories :: "(string \<Rightarrow> exn option) \<Rightarrow> Settings \<Rightarrow> exn option" where
  "setup_directories makedirs s =
     (case makedirs (model_cache_dir s) of
        Some e \<Rightarrow> Some e
      | None \<Rightarrow>
          (case makedirs (log_dir s) of
             Some e \<Rightarrow> Some e
           | None \<Rightarrow> makedirs (dirname (model_path s))))"

text \<open>The messages of the three \<open>ValueError\<close>s of \<open>_validate_config\<close> (UTF-8).\<close>

definition msg_master_required :: string where
  "msg_master_required =
     [CHR 0xE9, CHR 0x9B, CHR 0x86, CHR 0xE7, CHR 0xBE, CHR 0xA4, CHR 0xE6, CHR 0xA8, CHR 0xA1,
      CHR 0xE5, CHR 0xBC, CHR 0x8F, CHR 0xE4, CHR 0xB8, CHR 0x8B, CHR 0xE5, CHR 0xB7, CHR 0xA5,
      CHR 0xE4, CHR 0xBD, CHR 0x9C, CHR 0xE8, CHR 0x8A, CHR 0x82, CHR 0xE7, CHR 0x82, CHR 0xB9,
      CHR 0xE5, CHR 0xBF, CHR 0x85, CHR 0xE9, CHR 0xA1, CHR 0xBB, CHR 0xE6, CHR 0x8C, CHR 0x87,
      CHR 0xE5, CHR 0xAE, CHR 0x9A, CHR 0xE4, CHR 0xB8, CHR 0xBB, CHR 0xE8, CHR 0x8A, CHR 0x82,
      CHR 0xE7, CHR 0x82, CHR 0xB9, CHR 0xE5, CHR 0x9C, CHR 0xB0, CHR 0xE5, CHR 0x9D, CHR 0x80]"

definition msg_tensor_parallel :: string where
  "msg_tensor_parallel =
     [CHR 0xE5, CHR 0xBC, CHR 0xA0, CHR 0xE9, CHR 0x87, CHR 0x8F, CHR 0xE5, CHR 0xB9, CHR 0xB6,
      CHR 0xE8, CHR 0xA1, CHR 0x8C, CHR 0xE5, CHR 0xA4, CHR 0xA7, CHR 0xE5, CHR 0xB0, CHR 0x8F,
      CHR 0xE5, CHR 0xBF, CHR 0x85, CHR 0xE9, CHR 0xA1, CHR 0xBB, CHR 0xE5, CHR 0xA4, CHR 0xA7,
      CHR 0xE4, CHR 0xBA, CHR 0x8E, CHR 0x30]"

definition msg_gpu_utilization :: string where
  "msg_gpu_utilization =
     [CHR 0x47, CHR 0x50, CHR 0x55, CHR 0xE5, CHR 0x86, CHR 0x85, CHR 0xE5, CHR 0xAD, CHR 0x98,
      CHR 0xE5, CHR 0x88, CHR 0xA9, CHR 0xE7, CHR 0x94, CHR 0xA8, CHR 0xE7, CHR 0x8E, CHR 0x87,
      CHR 0xE5, CHR 0xBF, CHR 0x85, CHR 0xE9, CHR 0xA1, CHR 0xBB, CHR 0xE5, CHR 0x9C, CHR 0xA8,
      CHR 0x30, CHR 0x2D, CHR 0x31, CHR 0xE4, CHR 0xB9, CHR 0x8B, CHR 0xE9, CHR 0x97, CHR 0xB4]"

text \<open>\<open>not self.master_node\<close>: \<open>None\<close> and the empty string are both falsy.\<close>

definition not_master_node :: "string option \<Rightarrow> bool" where
  "not_master_node m = (case m of None \<Rightarrow> True | Some a \<Rightarrow> a = [])"

definition validate_config :: "Settings \<Rightarrow> exn option" where
  "validate_config s =
     (if cluster_enabled s \<and> not_master_node (master_node s) \<and> node_type s = ''worker''
      then Some (ValueError msg_master_required)
      else if tensor_parallel_size s < 1 then Some (ValueError msg_tensor_parallel)
      else if float_le (gpu_memory_utilization s) 0 \<or> float_gt (gpu_memory_utilization s) 1
      then Some (ValueError msg_gpu_utilization)
      else None)"

text \<open>\<open>Settings.__init__\<close>, from the field values pydantic has parsed: the directories
  first, then the validation; an exception of either leaves no instance.\<close>

definition Settings_init :: "(string \<Rightarrow> exn option) \<Rightarrow> Settings \<Rightarrow> exn + Settings" where
  "Settings_init makedirs vals =
     (case setup_directories makedirs vals of
        Some e \<Rightarrow> Inl e
      | None \<Rightarrow>
          (case validate_config vals of
             Some e \<Rightarrow> Inl e
           | None \<Rightarrow> Inr vals))"

text \<open>The chained comparison \<open>0 < x <= 1\<close> on a float.\<close>

definition float_in_unit :: "pyfloat \<Rightarrow> bool" where
  "float_in_unit x = (float_gt x 0 \<and> float_le x 1)"

fun is_ValueError :: "exn \<Rightarrow> bool" where
  "is_ValueError (ValueError m) = True"
| "is_ValueError e = False"

text \<open>A configuration that constructs: the defaults with a master address.\<close>

definition worker_settings :: Settings where
  "worker_settings = (default_settings ''node-1'' (Finite 0)) \<lparr> master_node := Some ''10.0.0.1:8000'' \<rparr>"

section \<open>Chat messages and the prompt (main.py)\<close>

record ChatMessage =
  role :: string
  content :: string

subsection \<open>format\_messages\<close>

text \<open>The body of the \<open>for msg in messages\<close> loop: the new value of \<open>formatted\<close>.\<close>

definition format_step :: "string \<Rightarrow> ChatMessage \<Rightarrow> string" where
  "format_step formatted msg =
     (if role msg = ''system'' then formatted @ ''System: '' @ content msg @ newline
      else if role msg = ''user'' then formatted @ ''User: '' @ content msg @ newline
      else if role msg = ''assistant'' then formatted @ ''Assistant: '' @ content msg @ newline
      else formatted)"

fun format_loop :: "string \<Rightarrow> ChatMessage list \<Rightarrow> string" where
  "format_loop formatted [] = formatted"
| "format_loop formatted (msg # msgs) = format_loop (format_step formatted msg) msgs"

definition format_messages :: "ChatMessage list \<Rightarrow> string" where
  "format_messages messages = format_loop [] messages @ ''Assistant: ''"

text \<open>The description of the result in the words of the specification: the messages
  with a known role, each rendered as a prefixed line, then the suffix.\<close>

definition known_role :: "ChatMessage \<Rightarrow> bool" where
  "known_role m = (role m = ''system'' \<or> role m = ''user'' \<or> role m = ''assistant'')"

definition role_label :: "string \<Rightarrow> string" where
  "role_label r =
     (if r = ''system'' then ''System'' else if r = ''user'' then ''User'' else ''Assistant'')"

definition prefixed_line :: "ChatMessage \<Rightarrow> string" where
  "prefixed_line m = role_label (role m) @ '': '' @ content m @ newline"

definition format_messages_spec :: "ChatMessage list \<Rightarrow> string" where
  "format_messages_spec messages =
     concat (map prefixed_line (filter known_role messages)) @ ''Assistant: ''"

section \<open>Request and response models (main.py)\<close>

record ChatCompletionRequest =
  req_model :: string
  messages :: "ChatMessage list"
  temperature :: pyfloat
  max_tokens :: int
  top_p :: pyfloat
  stream :: bool
  stop :: "string list option"

text \<open>An entry of \<open>choices\<close>: \<open>{"index", "message": {"role", "content"},
  "finish_reason"}\<close>.\<close>

record Choice =
  index :: int
  message :: ChatMessage
  choice_finish_reason :: "string option"

record Usage =
  prompt_tokens :: int
  completion_tokens :: int
  total_tokens :: int

record ChatCompletionResponse =
  resp_id :: string
  resp_object :: string
  created :: int
  resp_model :: string
  choices :: "Choice list"
  usage :: Usage

record HealthResponse =
  status :: string
  model_loaded :: bool
  cluster_status :: string
  health_node_id :: string
  uptime :: pyfloat

text \<open>The dictionary \<open>create_completion\<close> returns, and an entry of its \<open>choices\<close>.\<close>

record TextChoice =
  choice_text :: string
  choice_index :: int
  text_finish_reason :: "string option"

record TextCompletion =
  completion_id :: string
  completion_object :: string
  completion_created :: int
  completion_model :: pyval
  completion_choices :: "TextChoice list"

section \<open>Collaborators of main.py\<close>

text \<open>What the engine yields: a \<open>RequestOutput\<close> holds a list of
  \<open>CompletionOutput\<close>s, each with its \<open>text\<close> and \<open>finish_reason\<close>.\<close>

record CompletionOutput =
  out_text :: string
  finish_reason :: "string option"

record RequestOutput =
  outputs :: "CompletionOutput list"

text \<open>Keyword arguments of \<open>SamplingParams(...)\<close>; the object built from them is
  identified with them.\<close>

type_synonym sampling_params = "(string \<times> pyval) list"

text \<open>\<open>llm_engine.generate(prompt, sampling_params, request_id)\<close> returns an
  asynchronous generator.  Iterating it to its end gives finitely many outputs and
  then either stops (\<open>None\<close>) or raises (\<open>Some e\<close>).\<close>

type_synonym engine = "pyval \<Rightarrow> sampling_params \<Rightarrow> string \<Rightarrow> RequestOutput list \<times> exn option"

record ClusterManager =
  get_status :: string

text \<open>The module's globals and the library functions it calls.  \<open>tokenizer_encode\<close>
  is \<open>tokenizer.encode\<close>; \<open>sampling_params_error\<close> is the argument check of the
  \<open>SamplingParams\<close> constructor; \<open>str_exn\<close> is \<open>str(e)\<close>; \<open>json_dumps\<close> is
  \<open>json.dumps(_, ensure_ascii=False)\<close>; \<open>float_sub\<close> is the subtraction of two
  floats.  The tokenizer is loaded in the same start-up step as the engine, and
  encoding a string does not raise.  An engine object and a \<open>RequestOutput\<close> are
  truthy, so \<open>not llm_engine\<close> and \<open>not final_output\<close> test for \<open>None\<close>.\<close>

record Env =
  settings :: Settings
  llm_engine :: "engine option"
  cluster_manager :: "ClusterManager option"
  tokenizer_encode :: "string \<Rightarrow> int list"
  sampling_params_error :: "sampling_params \<Rightarrow> exn option"
  str_exn :: "exn \<Rightarrow> string"
  json_dumps :: "pyval \<Rightarrow> string"
  float_sub :: "pyfloat \<Rightarrow> pyfloat \<Rightarrow> pyfloat"

text \<open>The calls a handler makes, in order: the observable trace of a request.\<close>

datatype call =
    Call_format_messages
  | Call_SamplingParams sampling_params
  | Call_random_uuid
  | Call_generate pyval sampling_params string
  | Call_encode string
  | Call_logger_error string

text \<open>\<open>int(x)\<close> for a finite float: truncation towards zero.\<close>

definition int_of_float :: "real \<Rightarrow> int" where
  "int_of_float x = (if 0 \<le> x then \<lfloor>x\<rfloor> else \<lceil>x\<rceil>)"

subsection \<open>health\_check\<close>

definition health_check :: "Env \<Rightarrow> real \<Rightarrow> HealthResponse" where
  "health_check env now =
     \<lparr> status = (if llm_engine env \<noteq> None then ''healthy'' else ''loading''),
       model_loaded = (llm_engine env \<noteq> None),
       cluster_status =
         (case cluster_manager env of None \<Rightarrow> ''unknown'' | Some cm \<Rightarrow> get_status cm),
       health_node_id = node_id (settings env),
       uptime = float_sub env (Finite now) (start_time (settings env)) \<rparr>"

subsection \<open>Messages and details (UTF-8)\<close>

definition detail_not_loaded :: string where
  "detail_not_loaded =
     [CHR 0xE6, CHR 0xA8, CHR 0xA1, CHR 0xE5, CHR 0x9E, CHR 0x8B, CHR 0xE5, CHR 0xB0, CHR 0x9A,
      CHR 0xE6, CHR 0x9C, CHR 0xAA, CHR 0xE5, CHR 0x8A, CHR 0xA0, CHR 0xE8, CHR 0xBD, CHR 0xBD,
      CHR 0xE5, CHR 0xAE, CHR 0x8C, CHR 0xE6, CHR 0x88, CHR 0x90]"

definition detail_inference_failed :: string where
  "detail_inference_failed =
     [CHR 0xE6, CHR 0x8E, CHR 0xA8, CHR 0xE7, CHR 0x90, CHR 0x86, CHR 0xE5, CHR 0xA4, CHR 0xB1,
      CHR 0xE8, CHR 0xB4, CHR 0xA5]"

definition log_chat_failed :: string where
  "log_chat_failed =
     [CHR 0xE8, CHR 0x81, CHR 0x8A, CHR 0xE5, CHR 0xA4, CHR 0xA9, CHR 0xE5, CHR 0xAE, CHR 0x8C,
      CHR 0xE6, CHR 0x88, CHR 0x90, CHR 0xE8, CHR 0xAF, CHR 0xB7, CHR 0xE6, CHR 0xB1, CHR 0x82,
      CHR 0xE5, CHR 0xA4, CHR 0xB1, CHR 0xE8, CHR 0xB4, CHR 0xA5, CHR 0x3A, CHR 0x20]"

definition log_completion_failed :: string where
  "log_completion_failed =
     [CHR 0xE6, CHR 0x96, CHR 0x87, CHR 0xE6, CHR 0x9C, CHR 0xAC, CHR 0xE5, CHR 0xAE, CHR 0x8C,
      CHR 0xE6, CHR 0x88, CHR 0x90, CHR 0xE8, CHR 0xAF, CHR 0xB7, CHR 0xE6, CHR 0xB1, CHR 0x82,
      CHR 0xE5, CHR 0xA4, CHR 0xB1, CHR 0xE8, CHR 0xB4, CHR 0xA5, CHR 0x3A, CHR 0x20]"

definition msg_index_error :: string where
  "msg_index_error = ''list index out of range''"

text \<open>The message of the \<open>AttributeError\<close> of \<open>llm_engine.generate\<close> when the global
  is \<open>None\<close>.\<close>

definition msg_no_engine :: string where
  "msg_no_engine =
     [CHR 0x27] @ ''NoneType'' @ [CHR 0x27] @ '' object has no attribute ''
       @ [CHR 0x27] @ ''generate'' @ [CHR 0x27]"

subsection \<open>generate\_chat\_completion\<close>

text \<open>The loop \<open>async for request_output in results_generator: final_output =
  request_output\<close>, from \<open>final_output = None\<close>.\<close>

definition await_final_output :: "RequestOutput list \<Rightarrow> RequestOutput option" where
  "await_final_output outs = foldl (\<lambda>final_output request_output. Some request_output) None outs"

text \<open>\<open>final_output.outputs[0]\<close>.\<close>

definition first_output :: "RequestOutput \<Rightarrow> exn + CompletionOutput" where
  "first_output ro =
     (case outputs ro of [] \<Rightarrow> Inl (IndexError msg_index_error) | out # rest \<Rightarrow> Inr out)"

definition generate_chat_completion ::
  "Env \<Rightarrow> string \<Rightarrow> sampling_params \<Rightarrow> string \<Rightarrow> string \<Rightarrow> real \<Rightarrow> call list
     \<Rightarrow> (exn + ChatCompletionResponse) \<times> call list" where
  "generate_chat_completion env prompt sampling request_id model now tr =
     (case llm_engine env of
        None \<Rightarrow> (Inl (AttributeError msg_no_engine), tr)
      | Some engine \<Rightarrow>
          (let tr1 = tr @ [Call_generate (PStr prompt) sampling request_id] in
           case engine (PStr prompt) sampling request_id of
             (outs, Some e) \<Rightarrow> (Inl e, tr1)
           | (outs, None) \<Rightarrow>
               (case await_final_output outs of
                  None \<Rightarrow> (Inl (HTTPException 500 detail_inference_failed), tr1)
                | Some final_output \<Rightarrow>
                    (case first_output final_output of
                       Inl e \<Rightarrow> (Inl e, tr1)
                     | Inr output \<Rightarrow>
                         (let generated_text = out_text output;
                              n_prompt = int (length (tokenizer_encode env prompt));
                              n_completion = int (length (tokenizer_encode env generated_text))
                          in (Inr \<lparr> resp_id = request_id,
                                    resp_object = ''chat.completion'',
                                    created = int_of_float now,
                                    resp_model = model,
                                    choices =
                                      [\<lparr> index = 0,
                                         message = \<lparr> role = ''assistant'', content = generated_text \<rparr>,
                                         choice_finish_reason = finish_reason output \<rparr>],
                                    usage =
                                      \<lparr> prompt_tokens = n_prompt,
                                        completion_tokens = n_completion,
                                        total_tokens = n_prompt + n_completion \<rparr> \<rparr>,
                              tr1 @ [Call_encode prompt, Call_encode generated_text]))))))"

subsection \<open>stream\_chat\_completion\<close>

definition py_optional_str :: "string option \<Rightarrow> pyval" where
  "py_optional_str v = (case v of None \<Rightarrow> PNone | Some x \<Rightarrow> PStr x)"

text \<open>The dictionary \<open>chunk\<close> built for one output.\<close>

definition chat_chunk :: "string \<Rightarrow> int \<Rightarrow> string \<Rightarrow> CompletionOutput \<Rightarrow> pyval" where
  "chat_chunk request_id created_at model output =
     PDict [(''id'', PStr request_id),
            (''object'', PStr ''chat.completion.chunk''),
            (''created'', PInt created_at),
            (''model'', PStr model),
            (''choices'',
               PList [PDict [(''index'', PInt 0),
                             (''delta'', PDict [(''content'', PStr (out_text output))]),
                             (''finish_reason'', py_optional_str (finish_reason output))]])]"

definition sse_data :: "string \<Rightarrow> string" where
  "sse_data payload = ''data: '' @ payload @ newline @ newline"

definition sse_done :: string where
  "sse_done = ''data: [DONE]'' @ newline @ newline"

text \<open>The body of the \<open>async for\<close> loop over the outputs received: what is yielded,
  and the exception that ends the generator early, if any.\<close>

fun stream_outputs ::
  "Env \<Rightarrow> string \<Rightarrow> int \<Rightarrow> string \<Rightarrow> RequestOutput list \<Rightarrow> string list \<times> exn option" where
  "stream_outputs env request_id created_at model [] = ([], None)"
| "stream_outputs env request_id created_at model (request_output # rest) =
     (case first_output request_output of
        Inl e \<Rightarrow> ([], Some e)
      | Inr output \<Rightarrow>
          (case stream_outputs env request_id created_at model rest of
             (yielded, stopped) \<Rightarrow>
               (sse_data (json_dumps env (chat_chunk request_id created_at model output)) # yielded,
                stopped)))"

text \<open>Running the generator to its end: the strings it yields, the exception it
  raises, and the calls it made.\<close>

definition stream_chat_completion ::
  "Env \<Rightarrow> string \<Rightarrow> sampling_params \<Rightarrow> string \<Rightarrow> string \<Rightarrow> real \<Rightarrow> call list
     \<Rightarrow> string list \<times> exn option \<times> call list" where
  "stream_chat_completion env prompt sampling request_id model now tr =
     (case llm_engine env of
        None \<Rightarrow> ([], Some (AttributeError msg_no_engine), tr)
      | Some engine \<Rightarrow>
          (let tr1 = tr @ [Call_generate (PStr prompt) sampling request_id] in
           case engine (PStr prompt) sampling request_id of
             (outs, raised) \<Rightarrow>
               (case stream_outputs env request_id (int_of_float now) model outs of
                  (yielded, Some e) \<Rightarrow> (yielded, Some e, tr1)
                | (yielded, None) \<Rightarrow>
                    (case raised of
                       Some e \<Rightarrow> (yielded, Some e, tr1)
                     | None \<Rightarrow> (yielded @ [sse_done], None, tr1)))))"

subsection \<open>create\_chat\_completion\<close>

text \<open>The generator handed to \<open>StreamingResponse\<close> has not run when the handler
  returns: the response holds the arguments of \<open>stream_chat_completion\<close>.\<close>

record StreamArgs =
  stream_prompt :: string
  stream_sampling :: sampling_params
  stream_request_id :: string
  stream_model :: string

datatype chat_result =
    Completion ChatCompletionResponse
  | StreamingResponse StreamArgs string

definition chat_sampling_kwargs :: "ChatCompletionRequest \<Rightarrow> sampling_params" where
  "chat_sampling_kwargs request =
     [(''temperature'', PFloat (temperature request)),
      (''top_p'', PFloat (top_p request)),
      (''max_tokens'', PInt (max_tokens request)),
      (''stop'', (case stop request of None \<Rightarrow> PNone | Some ws \<Rightarrow> PList (map PStr ws)))]"

text \<open>The \<open>try\<close> block of \<open>create_chat_completion\<close>.  \<open>uuid\<close> is the value
  \<open>random_uuid()\<close> returns, \<open>now\<close> the clock read by \<open>generate_chat_completion\<close>.\<close>

definition chat_try_block ::
  "Env \<Rightarrow> ChatCompletionRequest \<Rightarrow> string \<Rightarrow> real \<Rightarrow> call list
     \<Rightarrow> (exn + chat_result) \<times> call list" where
  "chat_try_block env request uuid now tr =
     (let prompt = format_messages (messages request);
          tr1 = tr @ [Call_format_messages];
          kwargs = chat_sampling_kwargs request;
          tr2 = tr1 @ [Call_SamplingParams kwargs]
      in case sampling_params_error env kwargs of
           Some e \<Rightarrow> (Inl e, tr2)
         | None \<Rightarrow>
             (let request_id = uuid;
                  tr3 = tr2 @ [Call_random_uuid]
              in if stream request
                 then (Inr (StreamingResponse
                              \<lparr> stream_prompt = prompt, stream_sampling = kwargs,
                                stream_request_id = request_id, stream_model = req_model request \<rparr>
                              ''text/plain''),
                       tr3)
                 else (case generate_chat_completion env prompt kwargs request_id
                              (req_model request) now tr3 of
                         (Inl e, tr4) \<Rightarrow> (Inl e, tr4)
                       | (Inr response, tr4) \<Rightarrow> (Inr (Completion response), tr4))))"

definition create_chat_completion ::
  "Env \<Rightarrow> ChatCompletionRequest \<Rightarrow> string \<Rightarrow> real \<Rightarrow> call list
     \<Rightarrow> (exn + chat_result) \<times> call list" where
  "create_chat_completion env request uuid now tr =
     (if llm_engine env = None then (Inl (HTTPException 503 detail_not_loaded), tr)
      else (case chat_try_block env request uuid now tr of
              (Inl e, tr1) \<Rightarrow>
                (if is_Exception e
                 then (Inl (HTTPException 500 (str_exn env e)),
                       tr1 @ [Call_logger_error (log_chat_failed @ str_exn env e)])
                 else (Inl e, tr1))
            | (Inr result, tr1) \<Rightarrow> (Inr result, tr1)))"

subsection \<open>create\_completion\<close>

definition completion_try_block ::
  "Env \<Rightarrow> (string \<times> pyval) list \<Rightarrow> string \<Rightarrow> real \<Rightarrow> call list
     \<Rightarrow> (exn + TextCompletion) \<times> call list" where
  "completion_try_block env request uuid now tr =
     (let prompt = dict_get request ''prompt'' (PStr []);
          max_tokens_arg = dict_get request ''max_tokens'' (PInt 100);
          temperature_arg = dict_get request ''temperature'' (PFloat (Finite (7 / 10)));
          kwargs = [(''temperature'', temperature_arg), (''max_tokens'', max_tokens_arg)];
          tr1 = tr @ [Call_SamplingParams kwargs]
      in case sampling_params_error env kwargs of
           Some e \<Rightarrow> (Inl e, tr1)
         | None \<Rightarrow>
             (let request_id = uuid;
                  tr2 = tr1 @ [Call_random_uuid]
              in case llm_engine env of
                   None \<Rightarrow> (Inl (AttributeError msg_no_engine), tr2)
                 | Some engine \<Rightarrow>
                     (let tr3 = tr2 @ [Call_generate prompt kwargs request_id] in
                      case engine prompt kwargs request_id of
                        (outs, Some e) \<Rightarrow> (Inl e, tr3)
                      | (outs, None) \<Rightarrow>
                          (case await_final_output outs of
                             None \<Rightarrow> (Inl (HTTPException 500 detail_inference_failed), tr3)
                           | Some final_output \<Rightarrow>
                               (case first_output final_output of
                                  Inl e \<Rightarrow> (Inl e, tr3)
                                | Inr output \<Rightarrow>
                                    (Inr \<lparr> completion_id = request_id,
                                           completion_object = ''text_completion'',
                                           completion_created = int_of_float now,
                                           completion_model =
                                             dict_get request ''model'' (PStr ''deepseek-coder''),
                                           completion_choices =
                                             [\<lparr> choice_text = out_text output,
                                                choice_index = 0,
                                                text_finish_reason = finish_reason output \<rparr>] \<rparr>,
                                     tr3))))))"

definition create_completion ::
  "Env \<Rightarrow> (string \<times> pyval) list \<Rightarrow> string \<Rightarrow> real \<Rightarrow> call list
     \<Rightarrow> (exn + TextCompletion) \<times> call list" where
  "create_completion env request uuid now tr =
     (if llm_engine env = None then (Inl (HTTPException 503 detail_not_loaded), tr)
      else (case completion_try_block env request uuid now tr of
              (Inl e, tr1) \<Rightarrow>
                (if is_Exception e
                 then (Inl (HTTPException 500 (str_exn env e)),
                       tr1 @ [Call_logger_error (log_completion_failed @ str_exn env e)])
                 else (Inl e, tr1))
            | (Inr result, tr1) \<Rightarrow> (Inr result, tr1)))"

subsection \<open>metrics\_middleware\<close>

text \<open>The Prometheus objects of the module.  The gauge moves in steps of one; the
  histogram keeps what was observed.\<close>

record Metrics =
  ACTIVE_REQUESTS :: int
  REQUEST_COUNT :: "string \<times> string \<Rightarrow> nat"
  REQUEST_DURATION :: "pyfloat list"

text \<open>\<open>call_next\<close> runs the rest of the application on the shared metrics and either
  returns a response or raises; \<open>t0\<close> and \<open>t1\<close> are the two clock readings.  The
  \<open>finally\<close> block runs on both exits.\<close>

definition metrics_middleware ::
  "Env \<Rightarrow> string \<Rightarrow> string \<Rightarrow> (Metrics \<Rightarrow> (exn + 'r) \<times> Metrics) \<Rightarrow> real \<Rightarrow> real \<Rightarrow> Metrics
     \<Rightarrow> (exn + 'r) \<times> Metrics" where
  "metrics_middleware env method path call_next t0 t1 m =
     (let m1 = m \<lparr> ACTIVE_REQUESTS := ACTIVE_REQUESTS m + 1 \<rparr> in
      case call_next m1 of
        (outcome, m2) \<Rightarrow>
          (let m3 = (case outcome of
                       Inr response \<Rightarrow>
                         m2 \<lparr> REQUEST_COUNT :=
                                (REQUEST_COUNT m2)
                                  ((method, path) := REQUEST_COUNT m2 (method, path) + 1) \<rparr>
                     | Inl e \<Rightarrow> m2);
               m4 = m3 \<lparr> REQUEST_DURATION :=
                           REQUEST_DURATION m3 @ [float_sub env (Finite t1) (Finite t0)] \<rparr>;
               m5 = m4 \<lparr> ACTIVE_REQUESTS := ACTIVE_REQUESTS m4 - 1 \<rparr>
           in (outcome, m5)))"

text \<open>An engine output that carries one piece of text: the pair of its text and its
  finish reason as a \<open>RequestOutput\<close> with a single \<open>CompletionOutput\<close>.\<close>

definition fragment :: "string \<times> string option \<Rightarrow> RequestOutput" where
  "fragment f = \<lparr> outputs = [\<lparr> out_text = fst f, finish_reason = snd f \<rparr>] \<rparr>"

text \<open>The calls of \<open>create_chat_completion\<close> before it turns to the engine.\<close>

definition chat_calls :: "ChatCompletionRequest \<Rightarrow> call list" where
  "chat_calls request =
     [Call_format_messages, Call_SamplingParams (chat_sampling_kwargs request), Call_random_uuid]"

section \<open>Example collaborators\<close>

text \<open>Concrete collaborators for the examples below.  \<open>exn_text\<close> is \<open>str(e)\<close>: the
  message of a built-in exception; the empty string for an \<open>HTTPException\<close> built
  from keyword arguments, as in Starlette up to 0.27, whose \<open>HTTPException\<close> defines no
  \<open>__str__\<close> (later versions give the status code, a colon and the detail).\<close>

fun exn_text :: "exn \<Rightarrow> string" where
  "exn_text (HTTPException c d) = []"
| "exn_text (ValueError m) = m"
| "exn_text (OSError m) = m"
| "exn_text (IndexError m) = m"
| "exn_text (RuntimeError m) = m"
| "exn_text (AttributeError m) = m"
| "exn_text CancelledError = []"

fun exact_sub :: "pyfloat \<Rightarrow> pyfloat \<Rightarrow> pyfloat" where
  "exact_sub (Finite a) (Finite b) = Finite (a - b)"
| "exact_sub a b = NaN"

text \<open>A tokenizer that puts a begin-of-sequence token before one token per
  character.\<close>

definition bos_encode :: "string \<Rightarrow> int list" where
  "bos_encode s = 1 # map (\<lambda>c. int (of_char c)) s"

text \<open>\<open>json.dumps\<close> with its default separators on the values that occur in a chunk:
  \<open>None\<close>, booleans, integers, strings and containers of them.  Of the characters
  that JSON escapes, the quote, the backslash, newline, carriage return and tab are
  handled; floats do not occur in a chunk.\<close>

function nat_digits :: "nat \<Rightarrow> string" where
  "nat_digits n =
     (if n < 10 then [''0123456789'' ! n]
      else nat_digits (n div 10) @ [''0123456789'' ! (n mod 10)])"
  by pat_completeness auto
termination
  by (relation "measure id") auto

definition int_text :: "int \<Rightarrow> string" where
  "int_text i = (if i < 0 then ''-'' @ nat_digits (nat (- i)) else nat_digits (nat i))"

definition json_escape :: "char \<Rightarrow> string" where
  "json_escape c =
     (if c = CHR 0x22 \<or> c = CHR 0x5C then [CHR 0x5C, c]
      else if c = CHR 0x0A then [CHR 0x5C, CHR ''n'']
      else if c = CHR 0x0D then [CHR 0x5C, CHR ''r'']
      else if c = CHR 0x09 then [CHR 0x5C, CHR ''t'']
      else [c])"

definition json_string :: "string \<Rightarrow> string" where
  "json_string s = [CHR 0x22] @ concat (map json_escape s) @ [CHR 0x22]"

fun join :: "string \<Rightarrow> string list \<Rightarrow> string" where
  "join sep [] = []"
| "join sep [x] = x"
| "join sep (x # y # ys) = x @ sep @ join sep (y # ys)"

fun json_text :: "pyval \<Rightarrow> string" where
  "json_text PNone = ''null''"
| "json_text (PBool b) = (if b then ''true'' else ''false'')"
| "json_text (PInt i) = int_text i"
| "json_text (PFloat x) = ''NaN''"
| "json_text (PStr s) = json_string s"
| "json_text (PList vs) = ''['' @ join '', '' (map json_text vs) @ '']''"
| "json_text (PDict kvs) =
     ''{'' @ join '', '' (map (\<lambda>kv. json_string (fst kv) @ '': '' @ json_text (snd kv)) kvs)
       @ ''}''"

text \<open>Engines.  \<open>hello_engine\<close> yields the pieces \<open>Hel\<close>, \<open>lo\<close>, \<open>!\<close> one by one.
  \<open>cumulative\<close> turns a sequence of pieces into outputs that each hold the text
  generated so far, which is how vLLM's \<open>AsyncLLMEngine\<close> reports progress;
  \<open>cumulative_engine\<close> yields the same pieces that way.  \<open>failing_engine\<close> raises
  at once and \<open>silent_engine\<close> ends without an output.\<close>

definition hello_engine :: engine where
  "hello_engine prompt sampling request_id =
     (map fragment [(''Hel'', None), (''lo'', None), (''!'', Some ''stop'')], None)"

fun cumulative :: "string \<Rightarrow> (string \<times> string option) list \<Rightarrow> RequestOutput list" where
  "cumulative so_far [] = []"
| "cumulative so_far (f # fs) =
     fragment (so_far @ fst f, snd f) # cumulative (so_far @ fst f) fs"

definition cumulative_engine :: engine where
  "cumulative_engine prompt sampling request_id =
     (cumulative [] [(''Hel'', None), (''lo'', None), (''!'', Some ''stop'')], None)"

definition failing_engine :: engine where
  "failing_engine prompt sampling request_id = ([], Some (RuntimeError ''CUDA out of memory''))"

definition silent_engine :: engine where
  "silent_engine prompt sampling request_id = ([], None)"

definition idle_env :: Env where
  "idle_env =
     \<lparr> settings = worker_settings, llm_engine = None, cluster_manager = None,
       tokenizer_encode = bos_encode,
       sampling_params_error = (\<lambda>kwargs. None),
       str_exn = exn_text,
       json_dumps = json_text,
       float_sub = exact_sub \<rparr>"

definition hello_env :: Env where
  "hello_env = idle_env \<lparr> llm_engine := Some hello_engine \<rparr>"

definition cumulative_env :: Env where
  "cumulative_env = idle_env \<lparr> llm_engine := Some cumulative_engine \<rparr>"

definition failing_env :: Env where
  "failing_env = idle_env \<lparr> llm_engine := Some failing_engine \<rparr>"

definition silent_env :: Env where
  "silent_env = idle_env \<lparr> llm_engine := Some silent_engine \<rparr>"

definition hello_request :: ChatCompletionRequest where
  "hello_request =
     \<lparr> req_model = ''deepseek-coder'', messages = [\<lparr> role = ''user'', content = ''Hi'' \<rparr>],
       temperature = Finite (7 / 10), max_tokens = 2048, top_p = Finite (9 / 10),
       stream = False, stop = None \<rparr>"

definition hello_stream_request :: ChatCompletionRequest where
  "hello_stream_request = hello_request \<lparr> stream := True \<rparr>"

definition hello_prompt :: string where
  "hello_prompt = ''User: Hi'' @ newline @ ''Assistant: ''"

text \<open>The response to \<open>hello_request\<close> on \<open>cumulative_env\<close>.\<close>

definition cumulative_response :: ChatCompletionResponse where
  "cumulative_response =
     \<lparr> resp_id = ''req-1'', resp_object = ''chat.completion'', created = 0,
       resp_model = ''deepseek-coder'',
       choices = [\<lparr> index = 0, message = \<lparr> role = ''assistant'', content = ''Hello!'' \<rparr>,
                    choice_finish_reason = Some ''stop'' \<rparr>],
       usage = \<lparr> prompt_tokens = 21, completion_tokens = 7, total_tokens = 28 \<rparr> \<rparr>"

text \<open>The text and the finish reason of each choice of a non-streaming result.\<close>

definition returned_texts ::
  "(exn + ChatCompletionResponse) \<times> call list \<Rightarrow> (string \<times> string option) list" where
  "returned_texts result =
     (case fst result of
        Inl e \<Rightarrow> []
      | Inr r \<Rightarrow> map (\<lambda>c. (content (message c), choice_finish_reason c)) (choices r))"

section \<open>Admission control (coordinator, modelled from the specification)\<close>

text \<open>Modelled from the spec: the admission controller is not among the sources; \<open>config/settings.py\<close>
  only declares its limits (\<open>max_concurrent_requests\<close>, \<open>rate_limit_requests\<close>,
  \<open>rate_limit_window\<close>).  The reason of a \<open>Rejected\<close> answer of \<open>TryAcquire\<close>.\<close>

datatype reject_reason = ConcurrencyLimit | RateLimit

text \<open>Modelled from the spec: the state of the missing admission controller: the concurrency ceiling,
  the rate limit (admissions per window), the tickets outstanding, the next ticket, and
  the times of the admissions.\<close>

record Admission =
  concurrency_ceiling :: nat
  rate_limit :: nat
  rate_window :: nat
  outstanding :: "nat list"
  next_ticket :: nat
  admitted_at :: "nat list"

text \<open>Modelled from the spec: the missing controller before any request, for given limits.\<close>

definition new_admission :: "nat \<Rightarrow> nat \<Rightarrow> nat \<Rightarrow> Admission" where
  "new_admission c r w =
     \<lparr> concurrency_ceiling = c, rate_limit = r, rate_window = w, outstanding = [], next_ticket = 0,
       admitted_at = [] \<rparr>"

text \<open>Modelled from the spec: the missing controller configured from the limits that \<open>Settings\<close>
  declares.\<close>

definition admission_of_settings :: "Settings \<Rightarrow> Admission" where
  "admission_of_settings s =
     new_admission (nat (max_concurrent_requests s)) (nat (rate_limit_requests s))
       (nat (rate_limit_window s))"

text \<open>Modelled from the spec: the missing \<open>TryAcquire\<close>.  It does not block: it answers
  \<open>Rejected(ConcurrencyLimit)\<close> when the tickets outstanding have reached the ceiling,
  \<open>Rejected(RateLimit)\<close> when the admissions within the rolling window have reached
  the rate limit, and a fresh \<open>Ticket\<close> otherwise.  The specification does not say
  which reason is given when both limits are reached; the ceiling is tested first.\<close>

definition TryAcquire :: "nat \<Rightarrow> Admission \<Rightarrow> (reject_reason + nat) \<times> Admission" where
  "TryAcquire now a =
     (if concurrency_ceiling a \<le> length (outstanding a) then (Inl ConcurrencyLimit, a)
      else if rate_limit a \<le> length (filter (\<lambda>t. now < t + rate_window a) (admitted_at a))
      then (Inl RateLimit, a)
      else (Inr (next_ticket a),
            a \<lparr> outstanding := next_ticket a # outstanding a,
                next_ticket := Suc (next_ticket a),
                admitted_at := now # admitted_at a \<rparr>))"

text \<open>Modelled from the spec: the missing \<open>Release\<close>: the ticket is no longer outstanding.\<close>

definition Release :: "nat \<Rightarrow> Admission \<Rightarrow> Admission" where
  "Release ticket a = a \<lparr> outstanding := removeAll ticket (outstanding a) \<rparr>"

text \<open>Modelled from the spec: calls on the missing controller.  Access to its counters is serialised
  (section 5 of the specification), so an interleaving of concurrent callers is a
  sequence of calls.\<close>

datatype admission_call = Acquire nat | Free nat

text \<open>Modelled from the spec: the effect of one call on the missing controller.\<close>

fun admission_step :: "Admission \<Rightarrow> admission_call \<Rightarrow> Admission" where
  "admission_step a (Acquire now) = snd (TryAcquire now a)"
| "admission_step a (Free ticket) = Release ticket a"

text \<open>Modelled from the spec: the missing controller after a sequence of calls.\<close>

definition admission_run :: "Admission \<Rightarrow> admission_call list \<Rightarrow> Admission" where
  "admission_run a calls = foldl admission_step a calls"

text \<open>Modelled from the spec: three concurrent calls of the missing \<open>TryAcquire\<close>, in the order in
  which they are serialised: their answers and the state after them.\<close>

definition three_acquires :: "nat \<Rightarrow> nat \<Rightarrow> nat \<Rightarrow> Admission \<Rightarrow> (reject_reason + nat) list \<times> Admission" where
  "three_acquires t1 t2 t3 a =
     (case TryAcquire t1 a of (r1, a1) \<Rightarrow>
        (case TryAcquire t2 a1 of (r2, a2) \<Rightarrow>
           (case TryAcquire t3 a2 of (r3, a3) \<Rightarrow> ([r1, r2, r3], a3))))"

section \<open>Registry, circuit breaker and load balancer (coordinator, modelled from the specification)\<close>

text \<open>Modelled from the spec: the cluster manager (\<open>utils/cluster_manager.py\<close>, imported by
  \<open>main.py\<close>) is not among the sources.  The health state of a node.\<close>

datatype HealthState = Healthy | Suspect | Unreachable

text \<open>Modelled from the spec: the state of the missing per-node circuit breaker.\<close>

datatype BreakerPhase = Closed | Open | HalfOpen

text \<open>Modelled from the spec: the record the missing circuit breaker keeps for a node.\<close>

record BreakerState =
  failure_count :: nat
  phase :: BreakerPhase
  opened_at :: nat

text \<open>Modelled from the spec: an entry of the missing node registry, with the fields routing depends
  on: the node id (a number here, so that ids are ordered), the declared capacity, the
  health state, the heartbeats missed in a row, the last heartbeat and the breaker.\<close>

record Node =
  node_key :: nat
  capacity :: nat
  health :: HealthState
  missed_heartbeats :: nat
  last_heartbeat :: nat
  breaker :: BreakerState

text \<open>Modelled from the spec: the configuration of the missing breaker and heartbeat monitor: the failure
  threshold, the cooldown, and the number of missed heartbeats after which a node is
  unreachable.\<close>

record BreakerConfig =
  failure_threshold :: nat
  cooldown_duration :: nat
  unreachable_after :: nat

text \<open>Modelled from the spec: the state of the missing coordinator: the registry, the position of the
  round-robin rotation, and the sticky-session mapping.\<close>

record Coordinator =
  registry :: "Node list"
  rr_cursor :: nat
  sticky :: "(string \<times> nat) list"

text \<open>Modelled from the spec: the errors of the missing registry and load balancer.\<close>

datatype routing_error = NoEligibleNode | UnknownNode

text \<open>Modelled from the spec: the missing coordinator with an empty registry.\<close>

definition new_coordinator :: Coordinator where
  "new_coordinator = \<lparr> registry = [], rr_cursor = 0, sticky = [] \<rparr>"

text \<open>Modelled from the spec: a node as the missing \<open>Register\<close> enters it: healthy, breaker closed.\<close>

definition new_node :: "nat \<Rightarrow> nat \<Rightarrow> nat \<Rightarrow> Node" where
  "new_node k cap now =
     \<lparr> node_key = k, capacity = cap, health = Healthy, missed_heartbeats = 0,
       last_heartbeat = now,
       breaker = \<lparr> failure_count = 0, phase = Closed, opened_at = 0 \<rparr> \<rparr>"

text \<open>Modelled from the spec: whether the missing registry holds a node id.\<close>

definition known :: "nat \<Rightarrow> Coordinator \<Rightarrow> bool" where
  "known k c = (k \<in> set (map node_key (registry c)))"

text \<open>Modelled from the spec: a change to the entry of one node of the missing registry; the node id is
  fixed at registration.\<close>

definition update_node :: "nat \<Rightarrow> (Node \<Rightarrow> Node) \<Rightarrow> Coordinator \<Rightarrow> Coordinator" where
  "update_node k f c =
     c \<lparr> registry := map (\<lambda>n. if node_key n = k then (f n) \<lparr> node_key := k \<rparr> else n) (registry c) \<rparr>"

text \<open>Modelled from the spec: the missing \<open>Register\<close>, idempotent on the node id: a second
  registration only refreshes the heartbeat.\<close>

definition Register :: "nat \<Rightarrow> nat \<Rightarrow> nat \<Rightarrow> Coordinator \<Rightarrow> Coordinator" where
  "Register k cap now c =
     (if known k c
      then update_node k (\<lambda>n. n \<lparr> last_heartbeat := now \<rparr>) c
      else c \<lparr> registry := registry c @ [new_node k cap now] \<rparr>)"

text \<open>Modelled from the spec: the missing \<open>Unregister\<close> (also the eviction of an unreachable node): the
  entry goes, with its breaker state and the sticky mappings that point to it.\<close>

definition Unregister :: "nat \<Rightarrow> Coordinator \<Rightarrow> Coordinator" where
  "Unregister k c =
     c \<lparr> registry := filter (\<lambda>n. node_key n \<noteq> k) (registry c),
         sticky := filter (\<lambda>m. snd m \<noteq> k) (sticky c) \<rparr>"

text \<open>Modelled from the spec: the missing \<open>UpdateHeartbeat\<close>: a fresh heartbeat makes the node healthy;
  an unknown node id fails with \<open>UnknownNode\<close>.\<close>

definition UpdateHeartbeat :: "nat \<Rightarrow> nat \<Rightarrow> Coordinator \<Rightarrow> (routing_error + HealthState) \<times> Coordinator" where
  "UpdateHeartbeat k ts c =
     (if known k c
      then (Inr Healthy,
            update_node k
              (\<lambda>n. n \<lparr> health := Healthy, missed_heartbeats := 0, last_heartbeat := ts \<rparr>) c)
      else (Inl UnknownNode, c))"

text \<open>Modelled from the spec: one missed heartbeat window in the missing monitor: suspect after one miss,
  unreachable after the configured number of consecutive misses.\<close>

definition miss :: "BreakerConfig \<Rightarrow> Node \<Rightarrow> Node" where
  "miss cfg n =
     (let m = Suc (missed_heartbeats n)
      in n \<lparr> missed_heartbeats := m,
             health := (if unreachable_after cfg \<le> m then Unreachable else Suspect) \<rparr>)"

text \<open>Modelled from the spec: a missed heartbeat window of one node, applied to the missing registry.\<close>

definition MissedHeartbeat :: "BreakerConfig \<Rightarrow> nat \<Rightarrow> Coordinator \<Rightarrow> Coordinator" where
  "MissedHeartbeat cfg k c = update_node k (miss cfg) c"

text \<open>Modelled from the spec: the transitions of the missing breaker on an outcome.  Closed: a success
  clears the count, a failure that brings the count of consecutive failures to the
  threshold opens the breaker.  HalfOpen: a successful trial closes it, a failed one
  reopens it with a fresh cooldown.  Open: no change.\<close>

definition record_on_breaker :: "BreakerConfig \<Rightarrow> nat \<Rightarrow> bool \<Rightarrow> BreakerState \<Rightarrow> BreakerState" where
  "record_on_breaker cfg now success b =
     (case phase b of
        Closed \<Rightarrow>
          (if success then b \<lparr> failure_count := 0 \<rparr>
           else if failure_threshold cfg \<le> Suc (failure_count b)
           then b \<lparr> failure_count := Suc (failure_count b), phase := Open, opened_at := now \<rparr>
           else b \<lparr> failure_count := Suc (failure_count b) \<rparr>)
      | HalfOpen \<Rightarrow>
          (if success then b \<lparr> failure_count := 0, phase := Closed \<rparr>
           else b \<lparr> phase := Open, opened_at := now \<rparr>)
      | Open \<Rightarrow> b)"

text \<open>Modelled from the spec: the missing \<open>RecordOutcome(node_id, success)\<close>.\<close>

definition RecordOutcome :: "BreakerConfig \<Rightarrow> nat \<Rightarrow> nat \<Rightarrow> bool \<Rightarrow> Coordinator \<Rightarrow> Coordinator" where
  "RecordOutcome cfg now k success c =
     update_node k (\<lambda>n. n \<lparr> breaker := record_on_breaker cfg now success (breaker n) \<rparr>) c"

text \<open>Modelled from the spec: the eligibility check of the missing breaker: closed is eligible; open
  becomes half-open, and eligible for a single probe, once the cooldown has elapsed.\<close>

definition probe_breaker :: "BreakerConfig \<Rightarrow> nat \<Rightarrow> BreakerState \<Rightarrow> bool \<times> BreakerState" where
  "probe_breaker cfg now b =
     (case phase b of
        Closed \<Rightarrow> (True, b)
      | Open \<Rightarrow>
          (if opened_at b + cooldown_duration cfg \<le> now then (True, b \<lparr> phase := HalfOpen \<rparr>)
           else (False, b))
      | HalfOpen \<Rightarrow> (False, b))"

text \<open>Modelled from the spec: the missing \<open>IsEligible(node_id)\<close>.\<close>

definition IsEligible :: "BreakerConfig \<Rightarrow> nat \<Rightarrow> nat \<Rightarrow> Coordinator \<Rightarrow> bool \<times> Coordinator" where
  "IsEligible cfg now k c =
     (case find (\<lambda>n. node_key n = k) (registry c) of
        None \<Rightarrow> (False, c)
      | Some n \<Rightarrow>
          (fst (probe_breaker cfg now (breaker n)),
           update_node k (\<lambda>n. n \<lparr> breaker := snd (probe_breaker cfg now (breaker n)) \<rparr>) c))"

text \<open>Modelled from the spec: the nodes the missing load balancer rotates over: breaker closed and
  health state healthy.\<close>

definition routable :: "Node \<Rightarrow> bool" where
  "routable n = (phase (breaker n) = Closed \<and> health n = Healthy)"

text \<open>Modelled from the spec: the rotation of the missing load balancer: the routable nodes in the order
  of their ids, each as often as its declared capacity (at least once).\<close>

definition rotation :: "Node list \<Rightarrow> nat list" where
  "rotation ns =
     concat (map (\<lambda>n. replicate (max 1 (capacity n)) (node_key n))
               (sort_key node_key (filter routable ns)))"

text \<open>Modelled from the spec: the round-robin strategy of the missing load balancer; an empty rotation
  gives \<open>NoEligibleNode\<close>.\<close>

definition round_robin :: "Coordinator \<Rightarrow> (routing_error + nat) \<times> Coordinator" where
  "round_robin c =
     (let rot = rotation (registry c)
      in if rot = [] then (Inl NoEligibleNode, c)
         else (Inr (rot ! (rr_cursor c mod length rot)), c \<lparr> rr_cursor := Suc (rr_cursor c) \<rparr>))"

text \<open>Modelled from the spec: the missing \<open>SelectNode\<close>.  Without a session key it is round-robin.  With
  one, the mapped node is returned while it is healthy and closed; otherwise round-robin
  chooses and the new mapping is recorded.\<close>

definition SelectNode :: "string option \<Rightarrow> Coordinator \<Rightarrow> (routing_error + nat) \<times> Coordinator" where
  "SelectNode session c =
     (case session of
        None \<Rightarrow> round_robin c
      | Some s \<Rightarrow>
          (case map_of (sticky c) s of
             Some k \<Rightarrow>
               (if k \<in> set (map node_key (filter routable (registry c))) then (Inr k, c)
                else (case round_robin c of
                        (Inr k', c') \<Rightarrow> (Inr k', c' \<lparr> sticky := (s, k') # sticky c' \<rparr>)
                      | (Inl e, c') \<Rightarrow> (Inl e, c')))
           | None \<Rightarrow>
               (case round_robin c of
                  (Inr k', c') \<Rightarrow> (Inr k', c' \<lparr> sticky := (s, k') # sticky c' \<rparr>)
                | (Inl e, c') \<Rightarrow> (Inl e, c'))))"

text \<open>Modelled from the spec: the events that reach the missing coordinator.\<close>

datatype cluster_event =
    EvRegister nat nat nat
  | EvUnregister nat
  | EvUpdateHeartbeat nat nat
  | EvMissedHeartbeat nat
  | EvRecordOutcome nat nat bool
  | EvIsEligible nat nat
  | EvSelectNode "string option"

text \<open>Modelled from the spec: the effect of one event on the missing coordinator.\<close>

fun cluster_step :: "BreakerConfig \<Rightarrow> Coordinator \<Rightarrow> cluster_event \<Rightarrow> Coordinator" where
  "cluster_step cfg c (EvRegister k cap now) = Register k cap now c"
| "cluster_step cfg c (EvUnregister k) = Unregister k c"
| "cluster_step cfg c (EvUpdateHeartbeat k ts) = snd (UpdateHeartbeat k ts c)"
| "cluster_step cfg c (EvMissedHeartbeat k) = MissedHeartbeat cfg k c"
| "cluster_step cfg c (EvRecordOutcome now k success) = RecordOutcome cfg now k success c"
| "cluster_step cfg c (EvIsEligible now k) = snd (IsEligible cfg now k c)"
| "cluster_step cfg c (EvSelectNode session) = snd (SelectNode session c)"

text \<open>Modelled from the spec: the missing coordinator after a sequence of events, from the empty
  registry.\<close>

definition cluster_run :: "BreakerConfig \<Rightarrow> cluster_event list \<Rightarrow> Coordinator" where
  "cluster_run cfg evs = foldl (cluster_step cfg) new_coordinator evs"

text \<open>Modelled from the spec: the breaker states the missing registry holds for a node id.\<close>

definition breaker_phase_of :: "Coordinator \<Rightarrow> nat \<Rightarrow> BreakerPhase list" where
  "breaker_phase_of c k = map (\<lambda>n. phase (breaker n)) (filter (\<lambda>n. node_key n = k) (registry c))"

text \<open>Modelled from the spec: the health states the missing registry holds for a node id.\<close>

definition health_of :: "Coordinator \<Rightarrow> nat \<Rightarrow> HealthState list" where
  "health_of c k = map health (filter (\<lambda>n. node_key n = k) (registry c))"

text \<open>Modelled from the spec: an example for the missing coordinator: threshold 3; node 1 fails three
  times in a row, node 2 stays closed.\<close>

definition example_config :: BreakerConfig where
  "example_config = \<lparr> failure_threshold = 3, cooldown_duration = 30, unreachable_after = 3 \<rparr>"

definition example_events :: "cluster_event list" where
  "example_events =
     [EvRegister 1 1 0, EvRegister 2 1 0,
      EvRecordOutcome 1 1 False, EvRecordOutcome 2 1 False, EvRecordOutcome 3 1 False]"

definition tripped_node :: Node where
  "tripped_node =
     \<lparr> node_key = 1, capacity = 1, health = Healthy, missed_heartbeats = 0, last_heartbeat = 0,
       breaker = \<lparr> failure_count = 3, phase = Open, opened_at = 3 \<rparr> \<rparr>"

definition example_cluster :: Coordinator where
  "example_cluster = \<lparr> registry = [tripped_node, new_node 2 1 0], rr_cursor = 0, sticky = [] \<rparr>"

section \<open>Properties of format\_messages\<close>

lemma format_step_append:
  "format_step formatted msg =
     formatted @ (if known_role msg then prefixed_line msg else [])"
  by (simp add: format_step_def known_role_def prefixed_line_def role_label_def)

lemma format_loop_append:
  "format_loop formatted msgs =
     formatted @ concat (map prefixed_line (filter known_role msgs))"
proof (induction msgs arbitrary: formatted)
  case Nil
  show ?case by simp
next
  case (Cons msg msgs)
  show ?case
    by (simp add: Cons.IH format_step_append)
qed

text \<open>
  Claim C10.  For every list of messages, \<open>format_messages\<close> returns the lines of the
  messages whose role is exactly system, user or assistant, in input order, each with
  its capitalised prefix and a final newline, followed by the suffix \<open>Assistant: \<close>;
  messages of any other role contribute nothing, and the empty list gives the suffix
  alone.
\<close>

theorem format_messages_refines_spec:
  "format_messages msgs = format_messages_spec msgs
   \<and> format_messages msgs = format_messages (filter known_role msgs)
   \<and> (\<exists>body. format_messages msgs = body @ ''Assistant: '')
   \<and> format_messages [] = ''Assistant: ''"
proof -
  have a: "format_messages msgs = format_messages_spec msgs"
    by (simp add: format_messages_def format_messages_spec_def format_loop_append)
  have b: "format_messages (filter known_role msgs) = format_messages_spec msgs"
    by (simp add: format_messages_def format_messages_spec_def format_loop_append)
  have c: "\<exists>body. format_messages msgs = body @ ''Assistant: ''"
    by (simp add: format_messages_def)
  have d: "format_messages [] = ''Assistant: ''"
    by (simp add: format_messages_def)
  from a b c d show ?thesis by simp
qed

section \<open>Properties of Settings\<close>

lemma validate_default:
  "validate_config (default_settings u t) = Some (ValueError msg_master_required)"
  by (simp add: validate_config_def default_settings_def not_master_node_def)

lemma validate_None_tensor:
  "validate_config s = None \<Longrightarrow> 1 \<le> tensor_parallel_size s"
  by (simp add: validate_config_def split: if_splits)

lemma validate_None_gpu:
  "validate_config s = None \<Longrightarrow> gpu_memory_utilization s \<noteq> NaN
     \<Longrightarrow> float_in_unit (gpu_memory_utilization s)"
  by (cases "gpu_memory_utilization s")
     (auto simp: validate_config_def float_in_unit_def split: if_splits)

lemma Settings_init_Inr:
  "Settings_init makedirs vals = Inr s \<Longrightarrow> s = vals \<and> validate_config vals = None"
  by (auto simp: Settings_init_def split: option.splits)

text \<open>
  Claim C8, as the code has it.  Constructing \<open>Settings\<close> from the default field
  values never yields an instance.  \<open>__init__\<close> creates the directories before it
  validates: when \<open>os.makedirs\<close> raises for one of the three directories, that
  exception is the one raised; when the directories can be created, the validation
  raises the \<open>ValueError\<close> that asks for a master address.  Every instance that is
  constructed has \<open>tensor_parallel_size >= 1\<close> and, unless its
  \<open>gpu_memory_utilization\<close> is NaN, \<open>0 < gpu_memory_utilization <= 1\<close>.
\<close>

theorem settings_validation:
  "(\<exists>e. Settings_init makedirs (default_settings u t) = Inl e)
   \<and> (setup_directories makedirs (default_settings u t) = None \<longrightarrow>
        Settings_init makedirs (default_settings u t) = Inl (ValueError msg_master_required))
   \<and> (setup_directories makedirs (default_settings u t) = Some e \<longrightarrow>
        Settings_init makedirs (default_settings u t) = Inl e)
   \<and> (Settings_init makedirs vals = Inr s \<longrightarrow>
        1 \<le> tensor_parallel_size s
        \<and> (gpu_memory_utilization s \<noteq> NaN \<longrightarrow> float_in_unit (gpu_memory_utilization s)))"
proof -
  have a: "\<exists>e. Settings_init makedirs (default_settings u t) = Inl e"
    by (simp add: Settings_init_def validate_default split: option.splits)
  have b: "setup_directories makedirs (default_settings u t) = None \<longrightarrow>
        Settings_init makedirs (default_settings u t) = Inl (ValueError msg_master_required)"
    by (simp add: Settings_init_def validate_default)
  have b': "setup_directories makedirs (default_settings u t) = Some e \<longrightarrow>
        Settings_init makedirs (default_settings u t) = Inl e"
    by (simp add: Settings_init_def)
  have c: "Settings_init makedirs vals = Inr s \<longrightarrow>
        1 \<le> tensor_parallel_size s
        \<and> (gpu_memory_utilization s \<noteq> NaN \<longrightarrow> float_in_unit (gpu_memory_utilization s))"
    using Settings_init_Inr validate_None_tensor validate_None_gpu by blast
  from a b b' c show ?thesis by blast
qed

lemma worker_settings_init:
  "Settings_init (\<lambda>p. None) worker_settings = Inr worker_settings"
  by (simp add: Settings_init_def setup_directories_def validate_config_def
      worker_settings_def default_settings_def not_master_node_def)

theorem settings_validation_witness:
  "setup_directories (\<lambda>p. None) (default_settings ''node-1'' (Finite 0)) = None
   \<and> Settings_init (\<lambda>p. None) (default_settings ''node-1'' (Finite 0))
       = Inl (ValueError msg_master_required)
   \<and> setup_directories (\<lambda>p. if p = ''/data/logs'' then Some (OSError ''Read-only file system'') else None)
        (default_settings ''node-1'' (Finite 0)) = Some (OSError ''Read-only file system'')
   \<and> Settings_init (\<lambda>p. if p = ''/data/logs'' then Some (OSError ''Read-only file system'') else None)
        (default_settings ''node-1'' (Finite 0)) = Inl (OSError ''Read-only file system'')
   \<and> Settings_init (\<lambda>p. None) worker_settings = Inr worker_settings
   \<and> gpu_memory_utilization worker_settings \<noteq> NaN
   \<and> 1 \<le> tensor_parallel_size worker_settings
   \<and> float_in_unit (gpu_memory_utilization worker_settings)"
proof -
  have d: "setup_directories (\<lambda>p. None) (default_settings ''node-1'' (Finite 0)) = None"
    by (simp add: setup_directories_def)
  have d': "setup_directories
        (\<lambda>p. if p = ''/data/logs'' then Some (OSError ''Read-only file system'') else None)
        (default_settings ''node-1'' (Finite 0)) = Some (OSError ''Read-only file system'')"
    by (simp add: setup_directories_def default_settings_def)
  have g: "gpu_memory_utilization worker_settings \<noteq> NaN"
    by (simp add: worker_settings_def default_settings_def)
  show ?thesis
    using settings_validation [of "\<lambda>p. None" "''node-1''" "Finite 0" _ worker_settings worker_settings]
      settings_validation [of "\<lambda>p. if p = ''/data/logs'' then Some (OSError ''Read-only file system'') else None"
         "''node-1''" "Finite 0" "OSError ''Read-only file system''"]
      d d' g worker_settings_init
    by simp
qed

text \<open>The claim as worded fails twice: with the defaults and a directory that cannot
  be created the exception is not a \<open>ValueError\<close>, and a NaN utilisation passes the
  validation although it is not in the interval.\<close>

theorem settings_validation_counterexample:
  "Settings_init (\<lambda>p. Some (OSError ''Permission denied'')) (default_settings ''node-1'' (Finite 0))
     = Inl (OSError ''Permission denied'')
   \<and> \<not> is_ValueError (OSError ''Permission denied'')
   \<and> Settings_init (\<lambda>p. None) (worker_settings \<lparr> gpu_memory_utilization := NaN \<rparr>)
       = Inr (worker_settings \<lparr> gpu_memory_utilization := NaN \<rparr>)
   \<and> \<not> float_in_unit (gpu_memory_utilization (worker_settings \<lparr> gpu_memory_utilization := NaN \<rparr>))"
  by (simp add: Settings_init_def setup_directories_def validate_config_def
      worker_settings_def default_settings_def not_master_node_def float_in_unit_def)

section \<open>Auxiliary facts about the handlers\<close>

lemma await_final_output_eq:
  "await_final_output outs = (if outs = [] then None else Some (last outs))"
  unfolding await_final_output_def
  by (induction outs rule: rev_induct) simp_all

lemma chat_non_stream:
  assumes "llm_engine env = Some engine" and "\<not> stream request"
    and "sampling_params_error env (chat_sampling_kwargs request) = None"
  shows "chat_try_block env request uuid now tr =
     (case generate_chat_completion env (format_messages (messages request))
             (chat_sampling_kwargs request) uuid (req_model request) now (tr @ chat_calls request) of
        (Inl e, tr4) \<Rightarrow> (Inl e, tr4)
      | (Inr response, tr4) \<Rightarrow> (Inr (Completion response), tr4))"
  using assms by (simp add: chat_try_block_def chat_calls_def Let_def)

lemma chat_stream:
  assumes "llm_engine env = Some engine" and "stream request"
    and "sampling_params_error env (chat_sampling_kwargs request) = None"
  shows "create_chat_completion env request uuid now tr =
     (Inr (StreamingResponse
             \<lparr> stream_prompt = format_messages (messages request),
               stream_sampling = chat_sampling_kwargs request,
               stream_request_id = uuid, stream_model = req_model request \<rparr>
             ''text/plain''),
      tr @ [Call_format_messages, Call_SamplingParams (chat_sampling_kwargs request),
            Call_random_uuid])"
  using assms by (simp add: create_chat_completion_def chat_try_block_def Let_def)

lemma chat_generation_raises:
  assumes "llm_engine env = Some engine" and "\<not> stream request"
    and "sampling_params_error env (chat_sampling_kwargs request) = None"
    and "engine (PStr (format_messages (messages request))) (chat_sampling_kwargs request) uuid
           = (outs, Some e)"
    and "is_Exception e"
  shows "create_chat_completion env request uuid now tr =
     (Inl (HTTPException 500 (str_exn env e)),
      tr @ [Call_format_messages, Call_SamplingParams (chat_sampling_kwargs request),
            Call_random_uuid,
            Call_generate (PStr (format_messages (messages request)))
              (chat_sampling_kwargs request) uuid,
            Call_logger_error (log_chat_failed @ str_exn env e)])"
  using assms
  by (simp add: create_chat_completion_def chat_non_stream [OF assms(1,2,3)]
      generate_chat_completion_def chat_calls_def Let_def)

lemma chat_generation_silent:
  assumes "llm_engine env = Some engine" and "\<not> stream request"
    and "sampling_params_error env (chat_sampling_kwargs request) = None"
    and "engine (PStr (format_messages (messages request))) (chat_sampling_kwargs request) uuid
           = ([], None)"
  shows "create_chat_completion env request uuid now tr =
     (Inl (HTTPException 500 (str_exn env (HTTPException 500 detail_inference_failed))),
      tr @ [Call_format_messages, Call_SamplingParams (chat_sampling_kwargs request),
            Call_random_uuid,
            Call_generate (PStr (format_messages (messages request)))
              (chat_sampling_kwargs request) uuid,
            Call_logger_error
              (log_chat_failed @ str_exn env (HTTPException 500 detail_inference_failed))])"
  using assms
  by (simp add: create_chat_completion_def chat_non_stream [OF assms(1,2,3)]
      generate_chat_completion_def chat_calls_def Let_def await_final_output_def)

lemma hello_prompt_eq: "format_messages (messages hello_request) = hello_prompt"
  by (simp add: format_messages_def format_step_def hello_request_def hello_prompt_def)

lemma hello_stream_prompt: "format_messages (messages hello_stream_request) = hello_prompt"
  by (simp add: hello_stream_request_def hello_prompt_eq)

lemma cumulative_Nil: "(cumulative so_far frags = []) = (frags = [])"
  by (cases frags) simp_all

lemma cumulative_last:
  "frags \<noteq> [] \<Longrightarrow>
     last (cumulative so_far frags)
       = fragment (so_far @ concat (map fst frags), snd (last frags))"
  by (induction frags arbitrary: so_far) (auto simp: cumulative_Nil)

lemma chat_completion_success:
  assumes "create_chat_completion env request uuid now tr = (Inr (Completion r), tr')"
  shows "generate_chat_completion env (format_messages (messages request))
             (chat_sampling_kwargs request) uuid (req_model request) now (tr @ chat_calls request)
           = (Inr r, tr')"
proof -
  from assms have t: "chat_try_block env request uuid now tr = (Inr (Completion r), tr')"
    by (auto simp: create_chat_completion_def split: if_splits prod.splits sum.splits)
  then have ns: "\<not> stream request"
    by (auto simp: chat_try_block_def Let_def split: option.splits if_splits)
  from t have sp: "sampling_params_error env (chat_sampling_kwargs request) = None"
    by (auto simp: chat_try_block_def Let_def split: option.splits)
  from t ns sp show ?thesis
    by (auto simp: chat_try_block_def chat_calls_def Let_def split: prod.splits sum.splits)
qed

lemma generate_success:
  assumes "generate_chat_completion env prompt sp rid model now tr0 = (Inr r, tr')"
  shows "\<exists>engine outs out rest c.
       llm_engine env = Some engine
     \<and> engine (PStr prompt) sp rid = (outs, None)
     \<and> outs \<noteq> [] \<and> outputs (last outs) = out # rest
     \<and> choices r = [c] \<and> content (message c) = out_text out
     \<and> choice_finish_reason c = finish_reason out
     \<and> prompt_tokens (usage r) = int (length (tokenizer_encode env prompt))
     \<and> completion_tokens (usage r) = int (length (tokenizer_encode env (out_text out)))
     \<and> total_tokens (usage r) = prompt_tokens (usage r) + completion_tokens (usage r)
     \<and> tr' = tr0 @ [Call_generate (PStr prompt) sp rid, Call_encode prompt,
                     Call_encode (out_text out)]"
proof -
  from assms obtain engine where e: "llm_engine env = Some engine"
    by (auto simp: generate_chat_completion_def split: option.splits)
  obtain outs raised where g: "engine (PStr prompt) sp rid = (outs, raised)"
    by (cases "engine (PStr prompt) sp rid")
  from assms e g have n: "raised = None"
    by (auto simp: generate_chat_completion_def Let_def split: option.splits)
  from assms e g n have ne: "outs \<noteq> []"
    by (auto simp: generate_chat_completion_def Let_def await_final_output_eq split: option.splits)
  from assms e g n ne obtain out rest where o: "outputs (last outs) = out # rest"
    by (cases "outputs (last outs)")
       (auto simp: generate_chat_completion_def Let_def await_final_output_eq first_output_def)
  from assms e g n ne o show ?thesis
    by (auto simp: generate_chat_completion_def Let_def await_final_output_eq first_output_def)
qed

lemma cumulative_completion:
  "create_chat_completion cumulative_env hello_request ''req-1'' 0 [] =
     (Inr (Completion cumulative_response),
      [Call_format_messages, Call_SamplingParams (chat_sampling_kwargs hello_request),
       Call_random_uuid,
       Call_generate (PStr hello_prompt) (chat_sampling_kwargs hello_request) ''req-1'',
       Call_encode hello_prompt, Call_encode ''Hello!''])"
proof -
  have e: "llm_engine cumulative_env = Some cumulative_engine"
    by (simp add: cumulative_env_def)
  have ns: "\<not> stream hello_request" by (simp add: hello_request_def)
  have sp: "sampling_params_error cumulative_env (chat_sampling_kwargs hello_request) = None"
    by (simp add: cumulative_env_def idle_env_def)
  have tk: "tokenizer_encode cumulative_env = bos_encode"
    by (simp add: cumulative_env_def idle_env_def)
  have m: "req_model hello_request = ''deepseek-coder''" by (simp add: hello_request_def)
  have l: "length (bos_encode hello_prompt) = 21"
    by (simp add: hello_prompt_def newline_def bos_encode_def)
  have l2: "length (bos_encode ''Hello!'') = 7"
    by (simp add: bos_encode_def)
  have i: "int_of_float 0 = 0" by (simp add: int_of_float_def)
  have g: "generate_chat_completion cumulative_env hello_prompt (chat_sampling_kwargs hello_request)
             ''req-1'' ''deepseek-coder'' 0
             [Call_format_messages, Call_SamplingParams (chat_sampling_kwargs hello_request),
              Call_random_uuid]
           = (Inr cumulative_response,
              [Call_format_messages, Call_SamplingParams (chat_sampling_kwargs hello_request),
               Call_random_uuid,
               Call_generate (PStr hello_prompt) (chat_sampling_kwargs hello_request) ''req-1'',
               Call_encode hello_prompt, Call_encode ''Hello!''])"
    by (simp add: generate_chat_completion_def e cumulative_engine_def fragment_def
        await_final_output_def first_output_def tk l l2 i cumulative_response_def Let_def)
  show ?thesis
    using e
    by (simp add: create_chat_completion_def chat_non_stream [OF e ns sp] hello_prompt_eq m g
        chat_calls_def)
qed

section \<open>Properties of the handlers\<close>

text \<open>
  Claim C7.  The health response carries the node id of the configuration, the uptime
  (the clock reading minus the configured start time), a model-loaded flag that holds
  exactly when the engine has been initialised, and the cluster status (the manager's
  status, or \<open>unknown\<close> without a manager); its status is \<open>healthy\<close> exactly
  when the flag holds and \<open>loading\<close> otherwise.
\<close>

theorem health_check_fields:
  "health_node_id (health_check env now) = node_id (settings env)
   \<and> uptime (health_check env now) = float_sub env (Finite now) (start_time (settings env))
   \<and> model_loaded (health_check env now) = (llm_engine env \<noteq> None)
   \<and> cluster_status (health_check env now) =
       (case cluster_manager env of None \<Rightarrow> ''unknown'' | Some cm \<Rightarrow> get_status cm)
   \<and> (status (health_check env now) = ''healthy'') = model_loaded (health_check env now)
   \<and> (status (health_check env now) = ''loading'') = (\<not> model_loaded (health_check env now))"
  by (simp add: health_check_def)

text \<open>
  Claim C9.  Without an engine, the chat-completion and the text-completion handlers
  both fail with HTTP 503 and make no call at all: the trace of calls (prompt
  formatting, sampling parameters, request id, generation, logging) is returned as it
  was.
\<close>

theorem no_engine_service_unavailable:
  "llm_engine env = None \<Longrightarrow>
     create_chat_completion env request uuid now tr = (Inl (HTTPException 503 detail_not_loaded), tr)
     \<and> create_completion env body uuid' now' tr' = (Inl (HTTPException 503 detail_not_loaded), tr')"
  by (simp add: create_chat_completion_def create_completion_def)

theorem no_engine_service_unavailable_witness:
  "llm_engine idle_env = None
   \<and> create_chat_completion idle_env hello_request ''req-1'' 0 [] = (Inl (HTTPException 503 detail_not_loaded), [])
   \<and> create_completion idle_env [(''prompt'', PStr ''Hi'')] ''req-2'' 0 [] = (Inl (HTTPException 503 detail_not_loaded), [])"
proof -
  have h: "llm_engine idle_env = None" by (simp add: idle_env_def)
  show ?thesis
    using h no_engine_service_unavailable [OF h, of hello_request "''req-1''" 0 "[]" "[(''prompt'', PStr ''Hi'')]" "''req-2''" 0 "[]"]
    by simp
qed

text \<open>
  Claim C5.  The middleware increments the gauge of active requests once on entry and
  decrements it once in its \<open>finally\<close> block, whatever the outcome of the inner
  application: a response, or any exception (an error, a cancellation or a timeout
  arrive as exceptions).  The gauge after the request is the gauge the inner
  application left minus one, so it is back at its prior value when the inner
  application did not move it; the outcome is passed on unchanged.
\<close>

theorem middleware_gauge_restored:
  "ACTIVE_REQUESTS (snd (metrics_middleware env method path call_next t0 t1 m))
     = ACTIVE_REQUESTS (snd (call_next (m \<lparr> ACTIVE_REQUESTS := ACTIVE_REQUESTS m + 1 \<rparr>))) - 1
   \<and> fst (metrics_middleware env method path call_next t0 t1 m)
     = fst (call_next (m \<lparr> ACTIVE_REQUESTS := ACTIVE_REQUESTS m + 1 \<rparr>))
   \<and> ACTIVE_REQUESTS (snd (metrics_middleware env method path (\<lambda>m1. (outcome, m1)) t0 t1 m))
     = ACTIVE_REQUESTS m"
  by (auto simp: metrics_middleware_def Let_def split: prod.splits sum.splits)

text \<open>
  Claim C1, evaluated at its example.  When the engine yields the pieces \<open>Hel\<close>,
  \<open>lo\<close>, \<open>!\<close> one per output, the streaming path sends them in order, followed
  by the end marker, but the non-streaming path returns the last piece alone, \<open>!\<close>
  with finish reason \<open>stop\<close>.  When each output of the engine holds the text
  generated so far (\<open>Hel\<close>, \<open>Hello\<close>, \<open>Hello!\<close>), the non-streaming path
  returns \<open>Hello!\<close> with \<open>stop\<close>, but the streaming path sends the three
  cumulative texts as delta content.  In neither case do the two paths deliver the same
  total text.
\<close>

theorem buffered_and_streaming_disagree:
  \<open>fst (hello_engine (PStr hello_prompt) [] ''req-1'')
     = [\<lparr> outputs = [\<lparr> out_text = ''Hel'', finish_reason = None \<rparr>] \<rparr>,
        \<lparr> outputs = [\<lparr> out_text = ''lo'', finish_reason = None \<rparr>] \<rparr>,
        \<lparr> outputs = [\<lparr> out_text = ''!'', finish_reason = Some ''stop'' \<rparr>] \<rparr>]
   \<and> returned_texts
        (generate_chat_completion hello_env hello_prompt [] ''req-1'' ''deepseek-coder'' 0 [])
     = [(''!'', Some ''stop'')]
   \<and> fst (stream_chat_completion hello_env hello_prompt [] ''req-1'' ''deepseek-coder'' 0 [])
     = [''data: {"id": "req-1", "object": "chat.completion.chunk", "created": 0, "model": "deepseek-coder", "choices": [{"index": 0, "delta": {"content": "Hel"}, "finish_reason": null}]}'' @ newline @ newline,
        ''data: {"id": "req-1", "object": "chat.completion.chunk", "created": 0, "model": "deepseek-coder", "choices": [{"index": 0, "delta": {"content": "lo"}, "finish_reason": null}]}'' @ newline @ newline,
        ''data: {"id": "req-1", "object": "chat.completion.chunk", "created": 0, "model": "deepseek-coder", "choices": [{"index": 0, "delta": {"content": "!"}, "finish_reason": "stop"}]}'' @ newline @ newline,
        ''data: [DONE]'' @ newline @ newline]
   \<and> fst (cumulative_engine (PStr hello_prompt) [] ''req-1'')
     = [\<lparr> outputs = [\<lparr> out_text = ''Hel'', finish_reason = None \<rparr>] \<rparr>,
        \<lparr> outputs = [\<lparr> out_text = ''Hello'', finish_reason = None \<rparr>] \<rparr>,
        \<lparr> outputs = [\<lparr> out_text = ''Hello!'', finish_reason = Some ''stop'' \<rparr>] \<rparr>]
   \<and> returned_texts
        (generate_chat_completion cumulative_env hello_prompt [] ''req-1'' ''deepseek-coder'' 0 [])
     = [(''Hello!'', Some ''stop'')]
   \<and> fst (stream_chat_completion cumulative_env hello_prompt [] ''req-1'' ''deepseek-coder'' 0 [])
     = [''data: {"id": "req-1", "object": "chat.completion.chunk", "created": 0, "model": "deepseek-coder", "choices": [{"index": 0, "delta": {"content": "Hel"}, "finish_reason": null}]}'' @ newline @ newline,
        ''data: {"id": "req-1", "object": "chat.completion.chunk", "created": 0, "model": "deepseek-coder", "choices": [{"index": 0, "delta": {"content": "Hello"}, "finish_reason": null}]}'' @ newline @ newline,
        ''data: {"id": "req-1", "object": "chat.completion.chunk", "created": 0, "model": "deepseek-coder", "choices": [{"index": 0, "delta": {"content": "Hello!"}, "finish_reason": "stop"}]}'' @ newline @ newline,
        ''data: [DONE]'' @ newline @ newline]\<close>
proof -
  have i: "int_of_float 0 = 0" by (simp add: int_of_float_def)
  have a: "fst (hello_engine (PStr hello_prompt) [] ''req-1'')
     = [\<lparr> outputs = [\<lparr> out_text = ''Hel'', finish_reason = None \<rparr>] \<rparr>,
        \<lparr> outputs = [\<lparr> out_text = ''lo'', finish_reason = None \<rparr>] \<rparr>,
        \<lparr> outputs = [\<lparr> out_text = ''!'', finish_reason = Some ''stop'' \<rparr>] \<rparr>]"
    by (simp add: hello_engine_def fragment_def)
  have b: "returned_texts
        (generate_chat_completion hello_env hello_prompt [] ''req-1'' ''deepseek-coder'' 0 [])
     = [(''!'', Some ''stop'')]"
    by (simp add: returned_texts_def generate_chat_completion_def hello_env_def idle_env_def
        hello_engine_def fragment_def await_final_output_def first_output_def Let_def)
  have c: \<open>fst (stream_chat_completion hello_env hello_prompt [] ''req-1'' ''deepseek-coder'' 0 [])
     = [''data: {"id": "req-1", "object": "chat.completion.chunk", "created": 0, "model": "deepseek-coder", "choices": [{"index": 0, "delta": {"content": "Hel"}, "finish_reason": null}]}'' @ newline @ newline,
        ''data: {"id": "req-1", "object": "chat.completion.chunk", "created": 0, "model": "deepseek-coder", "choices": [{"index": 0, "delta": {"content": "lo"}, "finish_reason": null}]}'' @ newline @ newline,
        ''data: {"id": "req-1", "object": "chat.completion.chunk", "created": 0, "model": "deepseek-coder", "choices": [{"index": 0, "delta": {"content": "!"}, "finish_reason": "stop"}]}'' @ newline @ newline,
        ''data: [DONE]'' @ newline @ newline]\<close>
    by (simp add: stream_chat_completion_def hello_env_def idle_env_def hello_engine_def
        fragment_def first_output_def i sse_data_def sse_done_def chat_chunk_def
        py_optional_str_def json_string_def json_escape_def int_text_def)
  have d: "fst (cumulative_engine (PStr hello_prompt) [] ''req-1'')
     = [\<lparr> outputs = [\<lparr> out_text = ''Hel'', finish_reason = None \<rparr>] \<rparr>,
        \<lparr> outputs = [\<lparr> out_text = ''Hello'', finish_reason = None \<rparr>] \<rparr>,
        \<lparr> outputs = [\<lparr> out_text = ''Hello!'', finish_reason = Some ''stop'' \<rparr>] \<rparr>]"
    by (simp add: cumulative_engine_def fragment_def)
  have e: "returned_texts
        (generate_chat_completion cumulative_env hello_prompt [] ''req-1'' ''deepseek-coder'' 0 [])
     = [(''Hello!'', Some ''stop'')]"
    by (simp add: returned_texts_def generate_chat_completion_def cumulative_env_def idle_env_def
        cumulative_engine_def fragment_def await_final_output_def first_output_def Let_def)
  have f: \<open>fst (stream_chat_completion cumulative_env hello_prompt [] ''req-1'' ''deepseek-coder'' 0 [])
     = [''data: {"id": "req-1", "object": "chat.completion.chunk", "created": 0, "model": "deepseek-coder", "choices": [{"index": 0, "delta": {"content": "Hel"}, "finish_reason": null}]}'' @ newline @ newline,
        ''data: {"id": "req-1", "object": "chat.completion.chunk", "created": 0, "model": "deepseek-coder", "choices": [{"index": 0, "delta": {"content": "Hello"}, "finish_reason": null}]}'' @ newline @ newline,
        ''data: {"id": "req-1", "object": "chat.completion.chunk", "created": 0, "model": "deepseek-coder", "choices": [{"index": 0, "delta": {"content": "Hello!"}, "finish_reason": "stop"}]}'' @ newline @ newline,
        ''data: [DONE]'' @ newline @ newline]\<close>
    by (simp add: stream_chat_completion_def cumulative_env_def idle_env_def cumulative_engine_def
        fragment_def first_output_def i sse_data_def sse_done_def chat_chunk_def
        py_optional_str_def json_string_def json_escape_def int_text_def)
  from a b c d e f show ?thesis by (simp only: simp_thms)
qed

text \<open>
  Claim C2.  In a successful non-streaming chat completion the engine has yielded at
  least one output, and the returned text is the text of the first completion of its
  final output.  \<open>prompt_tokens\<close> is the number of tokens of the formatted prompt
  and \<open>completion_tokens\<close> the number of tokens of that text, both by
  \<open>tokenizer.encode\<close>; \<open>total_tokens\<close> is their sum.  The tokenizer is called
  exactly twice, once on the prompt and once on the text.  When the outputs of the
  engine hold the text generated so far, as they do for the engine the handler is
  written for, that text is all the pieces together, and the completion count is the
  number of tokens of the whole text, not a sum over the pieces.
\<close>

theorem usage_token_accounting:
  assumes "create_chat_completion env request uuid now tr = (Inr (Completion r), tr')"
  shows "(\<exists>engine outs out rest c.
       llm_engine env = Some engine
     \<and> engine (PStr (format_messages (messages request))) (chat_sampling_kwargs request) uuid
         = (outs, None)
     \<and> outs \<noteq> [] \<and> outputs (last outs) = out # rest
     \<and> choices r = [c] \<and> content (message c) = out_text out
     \<and> prompt_tokens (usage r)
         = int (length (tokenizer_encode env (format_messages (messages request))))
     \<and> completion_tokens (usage r) = int (length (tokenizer_encode env (out_text out)))
     \<and> total_tokens (usage r) = prompt_tokens (usage r) + completion_tokens (usage r)
     \<and> tr' = tr @ [Call_format_messages,
                    Call_SamplingParams (chat_sampling_kwargs request),
                    Call_random_uuid,
                    Call_generate (PStr (format_messages (messages request)))
                      (chat_sampling_kwargs request) uuid,
                    Call_encode (format_messages (messages request)),
                    Call_encode (out_text out)])
   \<and> (llm_engine env = Some engine0
       \<and> engine0 (PStr (format_messages (messages request))) (chat_sampling_kwargs request) uuid
           = (cumulative [] frags, None)
      \<longrightarrow> completion_tokens (usage r)
            = int (length (tokenizer_encode env (concat (map fst frags))))
        \<and> map (\<lambda>c. content (message c)) (choices r) = [concat (map fst frags)])"
proof -
  note g = chat_completion_success [OF assms]
  from generate_success [OF g] obtain engine outs out rest c where
    f: "llm_engine env = Some engine"
       "engine (PStr (format_messages (messages request))) (chat_sampling_kwargs request) uuid
         = (outs, None)"
       "outs \<noteq> []" "outputs (last outs) = out # rest"
       "choices r = [c]" "content (message c) = out_text out"
       "prompt_tokens (usage r)
         = int (length (tokenizer_encode env (format_messages (messages request))))"
       "completion_tokens (usage r) = int (length (tokenizer_encode env (out_text out)))"
       "total_tokens (usage r) = prompt_tokens (usage r) + completion_tokens (usage r)"
       "tr' = (tr @ chat_calls request)
                @ [Call_generate (PStr (format_messages (messages request)))
                     (chat_sampling_kwargs request) uuid,
                   Call_encode (format_messages (messages request)),
                   Call_encode (out_text out)]"
    by blast
  have a: "\<exists>engine outs out rest c.
       llm_engine env = Some engine
     \<and> engine (PStr (format_messages (messages request))) (chat_sampling_kwargs request) uuid
         = (outs, None)
     \<and> outs \<noteq> [] \<and> outputs (last outs) = out # rest
     \<and> choices r = [c] \<and> content (message c) = out_text out
     \<and> prompt_tokens (usage r)
         = int (length (tokenizer_encode env (format_messages (messages request))))
     \<and> completion_tokens (usage r) = int (length (tokenizer_encode env (out_text out)))
     \<and> total_tokens (usage r) = prompt_tokens (usage r) + completion_tokens (usage r)
     \<and> tr' = tr @ [Call_format_messages,
                    Call_SamplingParams (chat_sampling_kwargs request),
                    Call_random_uuid,
                    Call_generate (PStr (format_messages (messages request)))
                      (chat_sampling_kwargs request) uuid,
                    Call_encode (format_messages (messages request)),
                    Call_encode (out_text out)]"
    using f by (auto simp: chat_calls_def)
  have b: "completion_tokens (usage r)
            = int (length (tokenizer_encode env (concat (map fst frags))))
        \<and> map (\<lambda>c. content (message c)) (choices r) = [concat (map fst frags)]"
    if h: "llm_engine env = Some engine0"
       "engine0 (PStr (format_messages (messages request))) (chat_sampling_kwargs request) uuid
           = (cumulative [] frags, None)"
  proof -
    from f(1,2) h have o: "outs = cumulative [] frags" by simp
    with f(3) have ne: "frags \<noteq> []" by (simp add: cumulative_Nil)
    from cumulative_last [OF ne, of "[]"] o
    have "outputs (last outs)
            = [\<lparr> out_text = concat (map fst frags), finish_reason = snd (last frags) \<rparr>]"
      by (simp add: fragment_def)
    with f(4) have "out = \<lparr> out_text = concat (map fst frags), finish_reason = snd (last frags) \<rparr>"
      by simp
    then have "out_text out = concat (map fst frags)"
      by simp
    with f(5,6,8) show ?thesis by simp
  qed
  from a b show ?thesis by blast
qed

theorem usage_token_accounting_witness:
  "create_chat_completion cumulative_env hello_request ''req-1'' 0 [] =
     (Inr (Completion cumulative_response),
      [Call_format_messages, Call_SamplingParams (chat_sampling_kwargs hello_request),
       Call_random_uuid,
       Call_generate (PStr hello_prompt) (chat_sampling_kwargs hello_request) ''req-1'',
       Call_encode hello_prompt, Call_encode ''Hello!''])
   \<and> llm_engine cumulative_env = Some cumulative_engine
   \<and> cumulative_engine (PStr (format_messages (messages hello_request)))
        (chat_sampling_kwargs hello_request) ''req-1''
        = (cumulative [] [(''Hel'', None), (''lo'', None), (''!'', Some ''stop'')], None)
   \<and> completion_tokens (usage cumulative_response)
        = int (length (tokenizer_encode cumulative_env ''Hello!''))
   \<and> completion_tokens (usage cumulative_response) = 7
   \<and> int (length (tokenizer_encode cumulative_env ''Hel''))
        + int (length (tokenizer_encode cumulative_env ''lo''))
        + int (length (tokenizer_encode cumulative_env ''!'')) = 9
   \<and> prompt_tokens (usage cumulative_response) = 21
   \<and> total_tokens (usage cumulative_response) = 28
   \<and> map (\<lambda>c. content (message c)) (choices cumulative_response) = [''Hello!'']"
proof -
  have e: "llm_engine cumulative_env = Some cumulative_engine"
    by (simp add: cumulative_env_def)
  have c: "cumulative_engine (PStr (format_messages (messages hello_request)))
        (chat_sampling_kwargs hello_request) ''req-1''
        = (cumulative [] [(''Hel'', None), (''lo'', None), (''!'', Some ''stop'')], None)"
    by (simp add: cumulative_engine_def)
  have tk: "tokenizer_encode cumulative_env = bos_encode"
    by (simp add: cumulative_env_def idle_env_def)
  show ?thesis
    using usage_token_accounting [OF cumulative_completion, of cumulative_engine
        "[(''Hel'', None), (''lo'', None), (''!'', Some ''stop'')]"]
      cumulative_completion e c
    by (simp add: cumulative_response_def tk bos_encode_def)
qed

text \<open>
  Claim C6, as the code has it.  With an engine loaded and accepted sampling
  parameters, a non-streaming chat completion whose generation raises an exception
  \<open>e\<close> fails with HTTP 500 whose detail is \<open>str(e)\<close>, and one whose generation
  ends without any output fails with HTTP 500; that outcome differs from the 503 of a
  missing engine.  A streaming request returns its \<open>StreamingResponse\<close> before
  generation starts, so a failure of the generation is not turned into HTTP 500.
\<close>

theorem generation_failure_outcome:
  assumes "llm_engine env = Some engine"
    and "sampling_params_error env (chat_sampling_kwargs request) = None"
  shows
   "(\<not> stream request
      \<and> engine (PStr (format_messages (messages request))) (chat_sampling_kwargs request) uuid
           = (outs, Some e)
      \<and> is_Exception e
     \<longrightarrow> fst (create_chat_completion env request uuid now tr)
           = Inl (HTTPException 500 (str_exn env e)))
    \<and> (\<not> stream request
      \<and> engine (PStr (format_messages (messages request))) (chat_sampling_kwargs request) uuid
           = ([], None)
     \<longrightarrow> (\<exists>d. fst (create_chat_completion env request uuid now tr)
                 = Inl (HTTPException 500 d)))
    \<and> (stream request
     \<longrightarrow> create_chat_completion env request uuid now tr =
          (Inr (StreamingResponse
                  \<lparr> stream_prompt = format_messages (messages request),
                    stream_sampling = chat_sampling_kwargs request,
                    stream_request_id = uuid, stream_model = req_model request \<rparr>
                  ''text/plain''),
           tr @ [Call_format_messages, Call_SamplingParams (chat_sampling_kwargs request),
                 Call_random_uuid]))
    \<and> HTTPException 500 d' \<noteq> HTTPException 503 detail_not_loaded"
proof -
  have a: "\<not> stream request
      \<and> engine (PStr (format_messages (messages request))) (chat_sampling_kwargs request) uuid
           = (outs, Some e)
      \<and> is_Exception e
     \<longrightarrow> fst (create_chat_completion env request uuid now tr)
           = Inl (HTTPException 500 (str_exn env e))"
    using chat_generation_raises [OF assms(1) _ assms(2)] by simp
  have b: "\<not> stream request
      \<and> engine (PStr (format_messages (messages request))) (chat_sampling_kwargs request) uuid
           = ([], None)
     \<longrightarrow> (\<exists>d. fst (create_chat_completion env request uuid now tr)
                 = Inl (HTTPException 500 d))"
    using chat_generation_silent [OF assms(1) _ assms(2)] by simp
  have c: "stream request
     \<longrightarrow> create_chat_completion env request uuid now tr =
          (Inr (StreamingResponse
                  \<lparr> stream_prompt = format_messages (messages request),
                    stream_sampling = chat_sampling_kwargs request,
                    stream_request_id = uuid, stream_model = req_model request \<rparr>
                  ''text/plain''),
           tr @ [Call_format_messages, Call_SamplingParams (chat_sampling_kwargs request),
                 Call_random_uuid])"
    using chat_stream [OF assms(1) _ assms(2)] by simp
  have d: "HTTPException 500 d' \<noteq> HTTPException 503 detail_not_loaded" by simp
  from a b c d show ?thesis by blast
qed

theorem generation_failure_outcome_witness:
  "llm_engine failing_env = Some failing_engine
   \<and> sampling_params_error failing_env (chat_sampling_kwargs hello_request) = None
   \<and> \<not> stream hello_request
   \<and> failing_engine (PStr (format_messages (messages hello_request)))
        (chat_sampling_kwargs hello_request) ''req-1''
        = ([], Some (RuntimeError ''CUDA out of memory''))
   \<and> is_Exception (RuntimeError ''CUDA out of memory'')
   \<and> fst (create_chat_completion failing_env hello_request ''req-1'' 0 [])
        = Inl (HTTPException 500 ''CUDA out of memory'')
   \<and> llm_engine silent_env = Some silent_engine
   \<and> silent_engine (PStr (format_messages (messages hello_request)))
        (chat_sampling_kwargs hello_request) ''req-1'' = ([], None)
   \<and> (\<exists>d. fst (create_chat_completion silent_env hello_request ''req-1'' 0 [])
              = Inl (HTTPException 500 d))
   \<and> llm_engine hello_env = Some hello_engine
   \<and> stream hello_stream_request
   \<and> create_chat_completion hello_env hello_stream_request ''req-1'' 0 [] =
        (Inr (StreamingResponse
                \<lparr> stream_prompt = hello_prompt,
                  stream_sampling = chat_sampling_kwargs hello_stream_request,
                  stream_request_id = ''req-1'', stream_model = ''deepseek-coder'' \<rparr>
                ''text/plain''),
         [Call_format_messages, Call_SamplingParams (chat_sampling_kwargs hello_stream_request),
          Call_random_uuid])"
proof -
  have e1: "llm_engine failing_env = Some failing_engine"
    by (simp add: failing_env_def)
  have s1: "sampling_params_error failing_env (chat_sampling_kwargs hello_request) = None"
    by (simp add: failing_env_def idle_env_def)
  have x1: "str_exn failing_env = exn_text"
    by (simp add: failing_env_def idle_env_def)
  have f1: "failing_engine (PStr (format_messages (messages hello_request)))
        (chat_sampling_kwargs hello_request) ''req-1''
        = ([], Some (RuntimeError ''CUDA out of memory''))"
    by (simp add: failing_engine_def)
  have e2: "llm_engine silent_env = Some silent_engine"
    by (simp add: silent_env_def)
  have s2: "sampling_params_error silent_env (chat_sampling_kwargs hello_request) = None"
    by (simp add: silent_env_def idle_env_def)
  have f2: "silent_engine (PStr (format_messages (messages hello_request)))
        (chat_sampling_kwargs hello_request) ''req-1'' = ([], None)"
    by (simp add: silent_engine_def)
  have e3: "llm_engine hello_env = Some hello_engine"
    by (simp add: hello_env_def)
  have s3: "sampling_params_error hello_env (chat_sampling_kwargs hello_stream_request) = None"
    by (simp add: hello_env_def idle_env_def)
  have ns: "\<not> stream hello_request" by (simp add: hello_request_def)
  have st: "stream hello_stream_request" by (simp add: hello_stream_request_def)
  have m: "req_model hello_stream_request = ''deepseek-coder''"
    by (simp add: hello_stream_request_def hello_request_def)
  show ?thesis
    using generation_failure_outcome [OF e1 s1, where uuid = "''req-1''" and outs = "[]"
        and e = "RuntimeError ''CUDA out of memory''" and now = 0 and tr = "[]"]
      generation_failure_outcome [OF e2 s2, where uuid = "''req-1''" and now = 0 and tr = "[]"]
      generation_failure_outcome [OF e3 s3, where uuid = "''req-1''" and now = 0 and tr = "[]"]
      e1 s1 x1 f1 e2 f2 e3 ns st m hello_stream_prompt
    by simp
qed

text \<open>A streaming request on an engine that raises at once: the handler returns the
  streaming response, and the failure only shows when the body is produced; on an
  engine that yields nothing the body is the end marker alone.\<close>

theorem streaming_failure_counterexample:
  "llm_engine failing_env = Some failing_engine
   \<and> failing_engine (PStr hello_prompt) (chat_sampling_kwargs hello_stream_request) ''req-1''
        = ([], Some (RuntimeError ''CUDA out of memory''))
   \<and> create_chat_completion failing_env hello_stream_request ''req-1'' 0 [] =
        (Inr (StreamingResponse
                \<lparr> stream_prompt = hello_prompt,
                  stream_sampling = chat_sampling_kwargs hello_stream_request,
                  stream_request_id = ''req-1'', stream_model = ''deepseek-coder'' \<rparr>
                ''text/plain''),
         [Call_format_messages, Call_SamplingParams (chat_sampling_kwargs hello_stream_request),
          Call_random_uuid])
   \<and> stream_chat_completion failing_env hello_prompt (chat_sampling_kwargs hello_stream_request)
        ''req-1'' ''deepseek-coder'' 0 []
        = ([], Some (RuntimeError ''CUDA out of memory''),
           [Call_generate (PStr hello_prompt) (chat_sampling_kwargs hello_stream_request) ''req-1''])
   \<and> stream_chat_completion silent_env hello_prompt (chat_sampling_kwargs hello_stream_request)
        ''req-1'' ''deepseek-coder'' 0 []
        = ([sse_done], None,
           [Call_generate (PStr hello_prompt) (chat_sampling_kwargs hello_stream_request) ''req-1''])"
proof -
  have e1: "llm_engine failing_env = Some failing_engine"
    by (simp add: failing_env_def)
  have s1: "sampling_params_error failing_env (chat_sampling_kwargs hello_stream_request) = None"
    by (simp add: failing_env_def idle_env_def)
  have st: "stream hello_stream_request" by (simp add: hello_stream_request_def)
  have m: "req_model hello_stream_request = ''deepseek-coder''"
    by (simp add: hello_stream_request_def hello_request_def)
  have c: "create_chat_completion failing_env hello_stream_request ''req-1'' 0 [] =
        (Inr (StreamingResponse
                \<lparr> stream_prompt = hello_prompt,
                  stream_sampling = chat_sampling_kwargs hello_stream_request,
                  stream_request_id = ''req-1'', stream_model = ''deepseek-coder'' \<rparr>
                ''text/plain''),
         [Call_format_messages, Call_SamplingParams (chat_sampling_kwargs hello_stream_request),
          Call_random_uuid])"
    by (simp add: chat_stream [OF e1 st s1] hello_stream_prompt m)
  have f: "stream_chat_completion failing_env hello_prompt (chat_sampling_kwargs hello_stream_request)
        ''req-1'' ''deepseek-coder'' 0 []
        = ([], Some (RuntimeError ''CUDA out of memory''),
           [Call_generate (PStr hello_prompt) (chat_sampling_kwargs hello_stream_request) ''req-1''])"
    by (simp add: stream_chat_completion_def failing_env_def failing_engine_def)
  have g: "stream_chat_completion silent_env hello_prompt (chat_sampling_kwargs hello_stream_request)
        ''req-1'' ''deepseek-coder'' 0 []
        = ([sse_done], None,
           [Call_generate (PStr hello_prompt) (chat_sampling_kwargs hello_stream_request) ''req-1''])"
    by (simp add: stream_chat_completion_def silent_env_def silent_engine_def)
  from e1 c f g show ?thesis by (simp add: failing_engine_def)
qed

section \<open>Auxiliary facts about the admission controller\<close>

lemma TryAcquire_ceiling [simp]: "concurrency_ceiling (snd (TryAcquire now a)) = concurrency_ceiling a"
  by (simp add: TryAcquire_def)

lemma step_ceiling: "concurrency_ceiling (admission_step a c) = concurrency_ceiling a"
  by (cases c) (simp_all add: Release_def)

lemma step_bound:
  "length (outstanding a) \<le> concurrency_ceiling a \<Longrightarrow>
     length (outstanding (admission_step a c)) \<le> concurrency_ceiling (admission_step a c)"
proof (cases c)
  case (Acquire now)
  assume "length (outstanding a) \<le> concurrency_ceiling a"
  then show ?thesis using Acquire by (auto simp: TryAcquire_def)
next
  case (Free ticket)
  assume b: "length (outstanding a) \<le> concurrency_ceiling a"
  have h: "length (removeAll ticket (outstanding a)) \<le> length (outstanding a)"
    by (rule length_removeAll_less_eq)
  show ?thesis using le_trans [OF h b] Free by (simp add: Release_def)
qed

lemma run_bound:
  "length (outstanding a) \<le> concurrency_ceiling a \<Longrightarrow>
     length (outstanding (admission_run a calls)) \<le> concurrency_ceiling a
     \<and> concurrency_ceiling (admission_run a calls) = concurrency_ceiling a"
  unfolding admission_run_def
proof (induction calls arbitrary: a)
  case Nil
  then show ?case by simp
next
  case (Cons c calls)
  from Cons.prems have "length (outstanding (admission_step a c)) \<le> concurrency_ceiling (admission_step a c)"
    by (rule step_bound)
  from Cons.IH [OF this] show ?case by (simp add: step_ceiling)
qed

lemma release_frees:
  assumes "length (outstanding a) \<le> concurrency_ceiling a" and "ticket \<in> set (outstanding a)"
  shows "fst (TryAcquire now (Release ticket a)) \<noteq> Inl ConcurrencyLimit"
proof -
  have "length (removeAll ticket (outstanding a)) < length (outstanding a)"
    using assms(2) by (rule length_removeAll_less)
  with assms(1) have "length (outstanding (Release ticket a)) < concurrency_ceiling (Release ticket a)"
    by (simp add: Release_def)
  then show ?thesis by (simp add: TryAcquire_def)
qed

section \<open>Properties of the admission controller\<close>

text \<open>
  Claim C4.  After any sequence of \<open>TryAcquire\<close> and \<open>Release\<close> calls, the tickets
  outstanding do not exceed the concurrency ceiling, and releasing an outstanding
  ticket lets the next \<open>TryAcquire\<close> pass the ceiling.  With ceiling 2, three
  concurrent \<open>TryAcquire\<close> calls, in whatever order they are serialised, give two
  tickets and one \<open>Rejected(ConcurrencyLimit)\<close>; after one \<open>Release\<close> the next
  \<open>TryAcquire\<close> succeeds.
\<close>

theorem admission_within_ceiling:
  "length (outstanding (admission_run (new_admission c r w) calls)) \<le> c
   \<and> (ticket \<in> set (outstanding (admission_run (new_admission c r w) calls)) \<longrightarrow>
        fst (TryAcquire now (Release ticket (admission_run (new_admission c r w) calls)))
          \<noteq> Inl ConcurrencyLimit)
   \<and> fst (three_acquires t1 t2 t3 (new_admission 2 100 60))
        = [Inr 0, Inr 1, Inl ConcurrencyLimit]
   \<and> fst (TryAcquire t4 (Release 0 (snd (three_acquires t1 t2 t3 (new_admission 2 100 60)))))
        = Inr 2
   \<and> fst (TryAcquire t4 (Release 1 (snd (three_acquires t1 t2 t3 (new_admission 2 100 60)))))
        = Inr 2"
proof -
  have i: "length (outstanding (new_admission c r w)) \<le> concurrency_ceiling (new_admission c r w)"
    by (simp add: new_admission_def)
  have k: "concurrency_ceiling (new_admission c r w) = c"
    by (simp add: new_admission_def)
  from run_bound [OF i, of calls] k
  have b: "length (outstanding (admission_run (new_admission c r w) calls))
            \<le> concurrency_ceiling (admission_run (new_admission c r w) calls)"
    and a: "length (outstanding (admission_run (new_admission c r w) calls)) \<le> c"
    by simp_all
  have f: "ticket \<in> set (outstanding (admission_run (new_admission c r w) calls)) \<longrightarrow>
        fst (TryAcquire now (Release ticket (admission_run (new_admission c r w) calls)))
          \<noteq> Inl ConcurrencyLimit"
    using release_frees [OF b] by blast
  have x: "fst (three_acquires t1 t2 t3 (new_admission 2 100 60))
        = [Inr 0, Inr 1, Inl ConcurrencyLimit]"
    by (simp add: three_acquires_def TryAcquire_def new_admission_def)
  have y: "fst (TryAcquire t4 (Release 0 (snd (three_acquires t1 t2 t3 (new_admission 2 100 60)))))
        = Inr 2"
    by (simp add: three_acquires_def TryAcquire_def new_admission_def Release_def)
  have z: "fst (TryAcquire t4 (Release 1 (snd (three_acquires t1 t2 t3 (new_admission 2 100 60)))))
        = Inr 2"
    by (simp add: three_acquires_def TryAcquire_def new_admission_def Release_def)
  from a f x y z show ?thesis by blast
qed

lemma example_admission_run:
  "outstanding (admission_run (new_admission 2 100 60) [Acquire 0, Acquire 0, Acquire 0]) = [1, 0]"
  by (simp add: admission_run_def TryAcquire_def new_admission_def)

theorem admission_within_ceiling_witness:
  "0 \<in> set (outstanding (admission_run (new_admission 2 100 60) [Acquire 0, Acquire 0, Acquire 0]))
   \<and> length (outstanding (admission_run (new_admission 2 100 60) [Acquire 0, Acquire 0, Acquire 0]))
        \<le> 2
   \<and> fst (TryAcquire 5
        (Release 0 (admission_run (new_admission 2 100 60) [Acquire 0, Acquire 0, Acquire 0])))
        \<noteq> Inl ConcurrencyLimit
   \<and> concurrency_ceiling (admission_of_settings worker_settings) = 100"
proof -
  have m: "0 \<in> set (outstanding (admission_run (new_admission 2 100 60) [Acquire 0, Acquire 0, Acquire 0]))"
    by (simp add: example_admission_run)
  have s: "concurrency_ceiling (admission_of_settings worker_settings) = 100"
    by (simp add: admission_of_settings_def new_admission_def worker_settings_def
        default_settings_def)
  show ?thesis
    using admission_within_ceiling [of 2 100 60 "[Acquire 0, Acquire 0, Acquire 0]" 0 5] m s
    by simp
qed

section \<open>Auxiliary facts about the registry and the load balancer\<close>

lemma update_node_keys [simp]: "map node_key (registry (update_node k f c)) = map node_key (registry c)"
  by (simp add: update_node_def comp_def cong: map_cong)

lemma round_robin_registry [simp]: "registry (snd (round_robin c)) = registry c"
  by (simp add: round_robin_def Let_def)

lemma SelectNode_registry [simp]: "registry (snd (SelectNode s c)) = registry c"
proof -
  obtain r c' where rr: "round_robin c = (r, c')" by (cases "round_robin c")
  then have "registry c' = registry c" using round_robin_registry [of c] by simp
  then show ?thesis using rr
    by (auto simp: SelectNode_def split: option.splits sum.splits)
qed

lemma step_distinct:
  "distinct (map node_key (registry c)) \<Longrightarrow> distinct (map node_key (registry (cluster_step cfg c ev)))"
proof (cases ev)
  case (EvRegister k cap now)
  assume "distinct (map node_key (registry c))"
  then show ?thesis using EvRegister by (auto simp: Register_def known_def new_node_def)
next
  case (EvUnregister k)
  assume "distinct (map node_key (registry c))"
  then show ?thesis using EvUnregister by (simp add: Unregister_def distinct_map_filter)
next
  case (EvUpdateHeartbeat k ts)
  assume "distinct (map node_key (registry c))"
  then show ?thesis using EvUpdateHeartbeat by (simp add: UpdateHeartbeat_def)
next
  case (EvMissedHeartbeat k)
  assume "distinct (map node_key (registry c))"
  then show ?thesis using EvMissedHeartbeat by (simp add: MissedHeartbeat_def)
next
  case (EvRecordOutcome now k success)
  assume "distinct (map node_key (registry c))"
  then show ?thesis using EvRecordOutcome by (simp add: RecordOutcome_def)
next
  case (EvIsEligible now k)
  assume "distinct (map node_key (registry c))"
  then show ?thesis using EvIsEligible by (simp add: IsEligible_def split: option.splits)
next
  case (EvSelectNode session)
  assume "distinct (map node_key (registry c))"
  then show ?thesis using EvSelectNode by simp
qed

lemma foldl_distinct:
  "distinct (map node_key (registry c)) \<Longrightarrow>
     distinct (map node_key (registry (foldl (cluster_step cfg) c evs)))"
  by (induction evs arbitrary: c) (simp_all add: step_distinct)

lemma run_distinct: "distinct (map node_key (registry (cluster_run cfg evs)))"
  unfolding cluster_run_def by (rule foldl_distinct) (simp add: new_coordinator_def)

lemma rotation_set: "set (rotation ns) = node_key ` set (filter routable ns)"
  by (auto simp: rotation_def)

lemma round_robin_routable:
  "round_robin c = (Inr k, c') \<Longrightarrow> k \<in> node_key ` set (filter routable (registry c))"
proof -
  assume a: "round_robin c = (Inr k, c')"
  then have ne: "rotation (registry c) \<noteq> []"
    by (auto simp: round_robin_def Let_def split: if_splits)
  with a have "k = rotation (registry c) ! (rr_cursor c mod length (rotation (registry c)))"
    by (auto simp: round_robin_def Let_def split: if_splits)
  moreover from ne have "rr_cursor c mod length (rotation (registry c)) < length (rotation (registry c))"
    by simp
  ultimately have "k \<in> set (rotation (registry c))" by simp
  then show ?thesis by (simp only: rotation_set)
qed

lemma round_robin_error: "round_robin c = (Inl e, c') \<Longrightarrow> e = NoEligibleNode"
  by (auto simp: round_robin_def Let_def split: if_splits)

lemma SelectNode_routable:
  "SelectNode s c = (Inr k, c') \<Longrightarrow> k \<in> node_key ` set (filter routable (registry c))"
proof -
  assume a: "SelectNode s c = (Inr k, c')"
  obtain r c1 where rr: "round_robin c = (r, c1)" by (cases "round_robin c")
  show ?thesis
  proof (cases r)
    case (Inl e)
    with a rr show ?thesis
      by (auto simp: SelectNode_def split: option.splits if_splits)
  next
    case (Inr k1)
    with rr have "k1 \<in> node_key ` set (filter routable (registry c))"
      using round_robin_routable by blast
    with a rr Inr show ?thesis
      by (auto simp: SelectNode_def split: option.splits if_splits)
  qed
qed

lemma SelectNode_error: "SelectNode s c = (Inl e, c') \<Longrightarrow> e = NoEligibleNode"
proof -
  assume a: "SelectNode s c = (Inl e, c')"
  obtain r c1 where rr: "round_robin c = (r, c1)" by (cases "round_robin c")
  show ?thesis
  proof (cases r)
    case (Inl e1)
    with rr have "e1 = NoEligibleNode" using round_robin_error by blast
    with a rr Inl show ?thesis
      by (auto simp: SelectNode_def split: option.splits if_splits)
  next
    case (Inr k1)
    with a rr show ?thesis
      by (auto simp: SelectNode_def split: option.splits if_splits)
  qed
qed

lemma distinct_key_unique:
  "distinct (map node_key ns) \<Longrightarrow> n \<in> set ns \<Longrightarrow> m \<in> set ns \<Longrightarrow> node_key n = node_key m \<Longrightarrow> n = m"
  by (meson distinct_map inj_onD)

lemma filter_key_single:
  "distinct (map node_key ns) \<Longrightarrow> m \<in> set ns \<Longrightarrow> filter (\<lambda>n. node_key n = node_key m) ns = [m]"
proof (induction ns)
  case Nil
  then show ?case by simp
next
  case (Cons a ns)
  show ?case
  proof (cases "a = m")
    case True
    from Cons.prems True have "node_key m \<notin> node_key ` set ns" by simp
    then have "\<forall>n\<in>set ns. node_key n \<noteq> node_key m" by (metis imageI)
    then have "filter (\<lambda>n. node_key n = node_key m) ns = []" by (simp add: filter_empty_conv)
    with True show ?thesis by simp
  next
    case False
    with Cons.prems have "m \<in> set ns" by simp
    moreover from Cons.prems have "distinct (map node_key ns)" by simp
    ultimately have ih: "filter (\<lambda>n. node_key n = node_key m) ns = [m]" by (rule Cons.IH [rotated])
    from Cons.prems have "node_key a \<notin> node_key ` set ns" by simp
    with \<open>m \<in> set ns\<close> have "node_key a \<noteq> node_key m" by (metis imageI)
    with ih show ?thesis by simp
  qed
qed

lemma example_run: "cluster_run example_config example_events = example_cluster"
  by (simp add: cluster_run_def example_events_def example_config_def example_cluster_def
      new_coordinator_def Register_def known_def new_node_def RecordOutcome_def update_node_def
      record_on_breaker_def tripped_node_def)

lemma example_select:
  "SelectNode None example_cluster = (Inr 2, example_cluster \<lparr> rr_cursor := 1 \<rparr>)"
  by (simp add: SelectNode_def round_robin_def rotation_def routable_def example_cluster_def
      tripped_node_def new_node_def Let_def)

section \<open>Properties of the load balancer\<close>

text \<open>
  Claim C3.  In every state the coordinator reaches by registrations, heartbeats,
  outcomes, eligibility checks and earlier routing decisions, \<open>SelectNode\<close> either
  fails with \<open>NoEligibleNode\<close> or returns a node whose breaker is closed and whose
  health state is healthy; a node whose breaker is open is never returned.
\<close>

theorem select_node_never_open:
  assumes "c = cluster_run cfg evs"
  shows "(SelectNode session c = (Inr k, c') \<longrightarrow>
            breaker_phase_of c k = [Closed] \<and> health_of c k = [Healthy])
       \<and> (SelectNode session c = (Inl e, c') \<longrightarrow> e = NoEligibleNode)
       \<and> (n \<in> set (registry c) \<and> phase (breaker n) = Open \<and> SelectNode session c = (Inr k, c')
            \<longrightarrow> k \<noteq> node_key n)"
proof -
  have d: "distinct (map node_key (registry c))"
    unfolding assms by (rule run_distinct)
  have a: "breaker_phase_of c k = [Closed] \<and> health_of c k = [Healthy]"
    if s: "SelectNode session c = (Inr k, c')"
  proof -
    from SelectNode_routable [OF s] obtain m
      where m: "m \<in> set (registry c)" "routable m" "node_key m = k" by auto
    from filter_key_single [OF d m(1)] m(3)
    have "filter (\<lambda>n. node_key n = k) (registry c) = [m]" by simp
    with m(2) show ?thesis by (simp add: breaker_phase_of_def health_of_def routable_def)
  qed
  have b: "k \<noteq> node_key n"
    if n: "n \<in> set (registry c)" "phase (breaker n) = Open" and s: "SelectNode session c = (Inr k, c')"
  proof
    assume "k = node_key n"
    with filter_key_single [OF d n(1)] have "breaker_phase_of c k = [Open]"
      by (simp add: breaker_phase_of_def n(2))
    with a [OF s] show False by simp
  qed
  from a b SelectNode_error show ?thesis by blast
qed

theorem select_node_never_open_witness:
  "example_cluster = cluster_run example_config example_events
   \<and> tripped_node \<in> set (registry example_cluster)
   \<and> phase (breaker tripped_node) = Open
   \<and> SelectNode None example_cluster = (Inr 2, example_cluster \<lparr> rr_cursor := 1 \<rparr>)
   \<and> breaker_phase_of example_cluster 2 = [Closed]
   \<and> health_of example_cluster 2 = [Healthy]
   \<and> 2 \<noteq> node_key tripped_node"
proof -
  have r: "example_cluster = cluster_run example_config example_events"
    by (simp add: example_run)
  have t: "tripped_node \<in> set (registry example_cluster)"
    by (simp add: example_cluster_def)
  have p: "phase (breaker tripped_node) = Open"
    by (simp add: tripped_node_def)
  show ?thesis
    using select_node_never_open [OF r, of None 2 "example_cluster \<lparr> rr_cursor := 1 \<rparr>" _ tripped_node]
      r t p example_select
    by simp
qed

end
